theory Spec2Isabelle
  imports Main "HOL-Library.Sublist" "HOL-Library.AList"
begin

section \<open>JavaScript values\<close>

text \<open>
  The handlers and the router of the repository are TypeScript functions over JSON-like
  data. A value of the running program is a \<open>jsval\<close>. Strings are \<open>string\<close> (lists
  of 8-bit characters): a character outside ASCII stands as its UTF-8 bytes, and every
  substring test of the source has an ASCII needle, for which the byte-wise test and the
  code-unit-wise test of JavaScript agree. Numbers are the integers; functions, symbols
  and inherited (prototype) properties are not values of the model. An object is the
  list of its own properties in insertion order.
\<close>

datatype jsval =
    Undefined
  | Null
  | Bool bool
  | Num int
  | Str string
  | Arr "jsval list"
  | Obj "(string \<times> jsval) list"

text \<open>Truthiness, as \<open>if (v)\<close>, \<open>!v\<close>, \<open>a && b\<close> and \<open>a || b\<close> read a value.\<close>

fun truthy :: "jsval \<Rightarrow> bool" where
  "truthy Undefined = False"
| "truthy Null = False"
| "truthy (Bool b) = b"
| "truthy (Num n) = (n \<noteq> 0)"
| "truthy (Str s) = (s \<noteq> [])"
| "truthy (Arr xs) = True"
| "truthy (Obj kvs) = True"

text \<open>\<open>a || b\<close>\<close>

definition js_or :: "jsval \<Rightarrow> jsval \<Rightarrow> jsval" where
  "js_or a b = (if truthy a then a else b)"

text \<open>\<open>v === null || v === undefined\<close>: reading a property of such a value throws.\<close>

fun nullish :: "jsval \<Rightarrow> bool" where
  "nullish Undefined = True"
| "nullish Null = True"
| "nullish v = False"

text \<open>\<open>typeof v === 'object'\<close>\<close>

fun typeof_object :: "jsval \<Rightarrow> bool" where
  "typeof_object Null = True"
| "typeof_object (Arr xs) = True"
| "typeof_object (Obj kvs) = True"
| "typeof_object v = False"

text \<open>\<open>Array.isArray(v)\<close>\<close>

fun isArray :: "jsval \<Rightarrow> bool" where
  "isArray (Arr xs) = True"
| "isArray v = False"

text \<open>
  \<open>v.k\<close> for a value that is neither null nor undefined: an own property of an
  object, the length of an array or of a string, and undefined otherwise. The source
  reads named properties only, never an index.
\<close>

fun get_prop :: "jsval \<Rightarrow> string \<Rightarrow> jsval" where
  "get_prop (Obj kvs) k = (case map_of kvs k of Some v \<Rightarrow> v | None \<Rightarrow> Undefined)"
| "get_prop (Arr xs) k = (if k = ''length'' then Num (int (length xs)) else Undefined)"
| "get_prop (Str s) k = (if k = ''length'' then Num (int (length s)) else Undefined)"
| "get_prop v k = Undefined"

text \<open>\<open>k in v\<close> for an object or an array (own properties only; the source tests
  the names \<open>content\<close> and \<open>success\<close>, never an index).\<close>

fun has_key :: "jsval \<Rightarrow> string \<Rightarrow> bool" where
  "has_key (Obj kvs) k = (k \<in> set (map fst kvs))"
| "has_key (Arr xs) k = (k = ''length'')"
| "has_key v k = False"

text \<open>\<open>a === b\<close> for two values held at different places: objects and arrays are
  compared by identity, so two of them are never equal.\<close>

fun strict_eq :: "jsval \<Rightarrow> jsval \<Rightarrow> bool" where
  "strict_eq (Arr xs) b = False"
| "strict_eq (Obj kvs) b = False"
| "strict_eq a b = (a = b)"

text \<open>\<open>{...obj, k: v}\<close>: the property keeps its place when the object has it already.\<close>

definition set_prop :: "string \<Rightarrow> jsval \<Rightarrow> (string \<times> jsval) list \<Rightarrow> (string \<times> jsval) list" where
  "set_prop k v kvs = AList.update k v kvs"

text \<open>\<open>{...base, ...extra}\<close>\<close>

definition spread :: "(string \<times> jsval) list \<Rightarrow> (string \<times> jsval) list \<Rightarrow> (string \<times> jsval) list" where
  "spread base extra = fold (\<lambda>(k, v). set_prop k v) extra base"

subsection \<open>Strings\<close>

definition nl :: string where
  "nl = [CHR 0x0A]"

text \<open>\<open>parts.join(sep)\<close> on strings.\<close>

fun js_join :: "string \<Rightarrow> string list \<Rightarrow> string" where
  "js_join sep [] = []"
| "js_join sep [x] = x"
| "js_join sep (x # y # ys) = x @ sep @ js_join sep (y # ys)"

text \<open>\<open>s.includes(sub)\<close>\<close>

fun str_includes :: "string \<Rightarrow> string \<Rightarrow> bool" where
  "str_includes [] sub = (sub = [])"
| "str_includes (c # cs) sub = (prefix sub (c # cs) \<or> str_includes cs sub)"

text \<open>\<open>s.toUpperCase()\<close> on the ASCII letters (action names are ASCII identifiers).\<close>

definition toUpperCase :: "string \<Rightarrow> string" where
  "toUpperCase s =
     map (\<lambda>c. if 97 \<le> (of_char c :: nat) \<and> (of_char c :: nat) \<le> 122
               then char_of ((of_char c :: nat) - 32) else c) s"

text \<open>Decimal digits of a number, as \<open>String(n)\<close> prints an integer.\<close>

function show_nat :: "nat \<Rightarrow> string" where
  "show_nat n = (if n < 10 then [char_of (48 + n)] else show_nat (n div 10) @ [char_of (48 + n mod 10)])"
  by pat_completeness auto
termination
  by (relation "measure id") auto

definition show_int :: "int \<Rightarrow> string" where
  "show_int i = (if i < 0 then CHR ''-'' # show_nat (nat (- i)) else show_nat (nat i))"

text \<open>
  \<open>String(v)\<close>, the conversion a template literal \<open>`${v}`\<close> applies. An array prints
  its elements joined by commas, a null or undefined element as the empty string.
\<close>

fun js_string :: "jsval \<Rightarrow> string" where
  "js_string Undefined = ''undefined''"
| "js_string Null = ''null''"
| "js_string (Bool b) = (if b then ''true'' else ''false'')"
| "js_string (Num n) = show_int n"
| "js_string (Str s) = s"
| "js_string (Arr xs) = js_join '','' (map (\<lambda>x. if nullish x then [] else js_string x) xs)"
| "js_string (Obj kvs) = ''[object Object]''"

text \<open>\<open>xs.join(sep)\<close> on an array of values.\<close>

definition array_join :: "string \<Rightarrow> jsval list \<Rightarrow> string" where
  "array_join sep xs = js_join sep (map (\<lambda>x. if nullish x then [] else js_string x) xs)"

section \<open>Exceptions\<close>

text \<open>
  What a \<open>throw\<close> carries: \<open>new Error(msg)\<close>, a TypeError of the runtime (reading a
  property of null, calling what is not a function), a \<open>z.ZodError\<close> with its issues,
  or any other thrown value (the external client's errors). A function that may throw
  returns \<open>exn + 'a\<close>, with \<open>Inl\<close> the exception.
\<close>

record zod_issue =
  path :: "jsval list"
  message :: string

datatype exn =
    Error string
  | TypeError
  | ZodError "zod_issue list"
  | Thrown jsval

section \<open>Helpers and collaborators that are not part of the handlers\<close>

text \<open>
  The external content-platform client: the two calls the handlers make. A call returns
  the resource or throws.
\<close>

record client =
  fields_create :: "string \<Rightarrow> jsval \<Rightarrow> exn + jsval"
  items_duplicate :: "string \<Rightarrow> exn + jsval"

text \<open>
  The utilities the handlers import (\<open>utils/responseHandlers\<close>, \<open>utils/errorHandlers\<close>,
  \<open>utils/unifiedClientManager\<close>) are taken as parameters: \<open>createResponse\<close> and
  \<open>createErrorResponse\<close> build the response envelope from a payload,
  \<open>extractDetailedErrorInfo\<close> turns a caught exception into text (its result is used as
  a string without a test, so it is a string), \<open>getDefaultClient\<close> builds the client
  for a token and an environment or throws. \<open>stringify\<close> is the text
  \<open>JSON.stringify(v, null, 2)\<close> gives for a value other than undefined.
\<close>

record deps =
  createResponse :: "jsval \<Rightarrow> jsval"
  createErrorResponse :: "jsval \<Rightarrow> jsval"
  extractDetailedErrorInfo :: "exn \<Rightarrow> string"
  getDefaultClient :: "jsval \<Rightarrow> jsval \<Rightarrow> exn + client"
  stringify :: "jsval \<Rightarrow> string"

text \<open>\<open>JSON.stringify(v, null, 2)\<close>: undefined for undefined, a string otherwise.\<close>

definition JSON_stringify :: "'a deps_scheme \<Rightarrow> jsval \<Rightarrow> jsval" where
  "JSON_stringify env v = (if v = Undefined then Undefined else Str (stringify env v))"

text \<open>A call made on the external client, in the order the calls were made.\<close>

datatype client_call =
    FieldsCreate string jsval
  | ItemsDuplicate string

text \<open>\<open>BaseParams\<close>: what every handler's arguments carry.\<close>

record base_params =
  apiToken :: jsval
  environment :: jsval

section \<open>duplicateRecordHandler\<close>

text \<open>\<open>interface DuplicateRecordParams extends BaseParams\<close>\<close>

record duplicate_params = base_params +
  itemId :: string
  returnOnlyConfirmation :: "bool option"

definition sq :: string where
  "sq = [CHR 0x27]"

definition duplicate_failed_message :: "string \<Rightarrow> string" where
  "duplicate_failed_message item_id =
     ''Failed to duplicate record with ID '' @ sq @ item_id @ sq @ ''.''"

definition duplicate_confirmation_message :: "string \<Rightarrow> jsval \<Rightarrow> string" where
  "duplicate_confirmation_message item_id new_id =
     ''Successfully duplicated record with ID '' @ sq @ item_id @ sq @
     ''. New record ID: '' @ sq @ js_string new_id @ sq"

text \<open>
  The function given to \<open>createCustomHandler\<close> (lines 27 to 50). The result is the
  list of calls made on the external client and what the function returns or throws.
  Loading the module of the client manager (line 31) is part of \<open>getDefaultClient\<close>.
\<close>

definition duplicateRecordHandler ::
  "'a deps_scheme \<Rightarrow> duplicate_params \<Rightarrow> client_call list \<times> (exn + jsval)" where
  "duplicateRecordHandler env args =
     (let returnOnly = (case returnOnlyConfirmation args of None \<Rightarrow> False | Some b \<Rightarrow> b) in
      case getDefaultClient env (apiToken args) (environment args) of
        Inl e \<Rightarrow> ([], Inl e)
      | Inr cl \<Rightarrow>
          ([ItemsDuplicate (itemId args)],
           case items_duplicate cl (itemId args) of
             Inl e \<Rightarrow> Inl e
           | Inr duplicatedItem \<Rightarrow>
               if \<not> truthy duplicatedItem then
                 Inl (Error (duplicate_failed_message (itemId args)))
               else if returnOnly then
                 Inr (createResponse env (JSON_stringify env
                   (Obj [(''success'', Bool True),
                         (''message'', Str (duplicate_confirmation_message (itemId args)
                                              (get_prop duplicatedItem ''id'')))])))
               else
                 Inr (createResponse env (JSON_stringify env duplicatedItem))))"

section \<open>createFieldHandler\<close>

text \<open>
  \<open>interface CreateFieldParams extends BaseParams\<close>. The appearance object has the
  three properties the interface declares, in that order. \<open>label\<close>, \<open>apiKey\<close> and
  the additional properties of the index signature are what the handler calls
  \<open>restFieldData\<close>.
\<close>

record appearance =
  editor :: string
  parameters :: "(string \<times> jsval) list option"
  addons :: "jsval list option"

record create_field_params = base_params +
  itemTypeId :: string
  field_type :: string
  label :: string
  apiKey :: "string option"
  validators :: "(string \<times> jsval) list option"
  appearance :: "appearance option"
  additional :: "(string \<times> jsval) list"

text \<open>\<open>validators?.k\<close>\<close>

definition validator :: "create_field_params \<Rightarrow> string \<Rightarrow> jsval" where
  "validator args k =
     (case validators args of None \<Rightarrow> Undefined | Some vs \<Rightarrow> get_prop (Obj vs) k)"

text \<open>\<open>appearance.parameters || {}\<close>\<close>

definition parameters_or_empty :: "appearance option \<Rightarrow> (string \<times> jsval) list" where
  "parameters_or_empty ap =
     (case ap of None \<Rightarrow> [] | Some a \<Rightarrow> (case parameters a of None \<Rightarrow> [] | Some ps \<Rightarrow> ps))"

text \<open>\<open>processedAppearance?.addons || []\<close>\<close>

definition addons_or_empty :: "appearance option \<Rightarrow> jsval list" where
  "addons_or_empty ap =
     (case ap of None \<Rightarrow> [] | Some a \<Rightarrow> (case addons a of None \<Rightarrow> [] | Some xs \<Rightarrow> xs))"

text \<open>The appearance object as the value handed to the client.\<close>

definition appearance_obj :: "appearance \<Rightarrow> jsval" where
  "appearance_obj a =
     Obj ([(''editor'', Str (editor a))] @
          (case parameters a of None \<Rightarrow> [] | Some ps \<Rightarrow> [(''parameters'', Obj ps)]) @
          (case addons a of None \<Rightarrow> [] | Some xs \<Rightarrow> [(''addons'', Arr xs)]))"

subsection \<open>The messages of the thrown errors\<close>

definition missing_rich_text_blocks_message :: string where
  \<open>missing_rich_text_blocks_message =
     ''Missing required validator 'rich_text_blocks' for rich_text field. '' @
     ''Add { "rich_text_blocks": { "item_types": ["block_model_id1", "block_model_id2"] } } to validators.''\<close>

definition missing_structured_text_blocks_message :: string where
  \<open>missing_structured_text_blocks_message =
     ''Missing required validator 'structured_text_blocks' for structured_text field. '' @
     ''Add { "structured_text_blocks": { "item_types": [] } } to validators.''\<close>

definition missing_single_block_blocks_message :: string where
  \<open>missing_single_block_blocks_message =
     ''Missing required validator 'single_block_blocks' for single_block field. '' @
     ''Add { "single_block_blocks": { "item_types": [] } } to validators.''\<close>

definition missing_enum_message :: "string \<Rightarrow> string" where
  \<open>missing_enum_message ed =
     ''Missing required validator 'enum' for string field with '' @ ed @ '' editor. '' @
     ''Add { "enum": { "values": [...] } } to validators, and ensure values match the options.''\<close>

definition enum_mismatch_message :: string where
  \<open>enum_mismatch_message =
     ''Validator enum values must exactly match the option values in appearance.parameters.''\<close>

definition missing_item_item_type_message :: string where
  \<open>missing_item_item_type_message =
     ''Missing required validator 'item_item_type' for link field. '' @
     ''Add { "item_item_type": { "item_types": ["your_item_type_id"] } } to validators.''\<close>

definition item_item_type_array_message :: string where
  \<open>item_item_type_array_message =
     ''The 'item_item_type' validator must include an 'item_types' array with at least one valid item type ID.''\<close>

definition missing_items_item_type_message :: string where
  \<open>missing_items_item_type_message =
     ''Missing required validator 'items_item_type' for links field. '' @
     ''Add { "items_item_type": { "item_types": ["your_item_type_id"] } } to validators.''\<close>

definition items_item_type_array_message :: string where
  \<open>items_item_type_array_message =
     ''The 'items_item_type' validator must include an 'item_types' array with at least one valid item type ID.''\<close>

definition required_not_supported_message :: string where
  \<open>required_not_supported_message =
     ''The 'required' validator is not supported on gallery, links, or rich_text fields. Remove it from the validators object.''\<close>

definition missing_slug_title_field_message :: string where
  \<open>missing_slug_title_field_message =
     ''Missing required validator 'slug_title_field' for slug field. '' @
     ''Add { "slug_title_field": { "title_field_id": "<field_id>" } } to validators.''\<close>

definition addons_required_message :: string where
  \<open>addons_required_message =
     ''The 'addons' field is required in appearance object. '' @
     ''Always include it, at minimum as an empty array: { "addons": [] }''\<close>

definition rich_text_blocks_required_message :: string where
  \<open>rich_text_blocks_required_message =
     ''Rich text fields require the 'rich_text_blocks' validator. '' @
     ''Example: { "rich_text_blocks": { "item_types": ["block_model_id1", "block_model_id2"] } }''\<close>

definition start_collapsed_message :: string where
  \<open>start_collapsed_message =
     ''The 'start_collapsed' parameter is valid for rich_text and single_block fields. '' @
     ''For structured_text fields use 'blocks_start_collapsed'. '' @
     ''Ensure you only include this parameter with the appropriate field types.''\<close>

definition invalid_item_item_type_message :: string where
  \<open>invalid_item_item_type_message =
     ''The item type IDs provided in 'item_item_type' are invalid or inaccessible. Verify the IDs and try again.''\<close>

definition invalid_items_item_type_message :: string where
  \<open>invalid_items_item_type_message =
     ''The item type IDs provided in 'items_item_type' are invalid or inaccessible. Verify the IDs and try again.''\<close>

definition color_field_message :: string where
  \<open>color_field_message =
     ''Error creating color field. Use appearance.editor 'color_picker' and set parameters.enable_alpha to false.''\<close>

definition lat_lon_editor_message :: "string \<Rightarrow> string" where
  \<open>lat_lon_editor_message errorMessage =
     ''Error creating lat_lon field: Make sure you're using "editor": "map" (not "lat_lon_editor") in the appearance. '' @
     errorMessage\<close>

definition json_editor_message :: "string \<Rightarrow> string" where
  \<open>json_editor_message errorMessage =
     ''Error creating json field: Make sure you're using one of: "json_editor", "string_multi_select", or "string_checkbox_group" as the editor. '' @
     errorMessage\<close>

definition invalid_editor_message :: "string \<Rightarrow> string \<Rightarrow> string" where
  \<open>invalid_editor_message ft errorMessage =
     ''Error with field editor: Invalid editor for field type '' @ ft @
     ''. Check docs/FIELD_CREATION_GUIDE.md for the correct editor names. '' @ errorMessage\<close>

definition red_circle :: string where
  "red_circle = [CHR 0xF0, CHR 0x9F, CHR 0x94, CHR 0xB4]"

definition invalid_configuration_message :: "string \<Rightarrow> string \<Rightarrow> string \<Rightarrow> string" where
  \<open>invalid_configuration_message ft ed errorMessage = js_join nl
     [''Error creating field: The field configuration is invalid. '',
      '''',
      red_circle @ '' COMMON ISSUES AND SOLUTIONS:'',
      '''',
      ''1. For string fields with "string_radio_group" or "string_select" appearance:'',
      ''   REQUIRED: Matching enum validators'',
      ''   {'',
      ''     "validators": {'',
      ''       "enum": {"values": ["option_a", "option_b"]}'',
      ''     },'',
      ''     "appearance": {'',
      ''       "editor": "string_radio_group",'',
      ''       "parameters": {"radios": [{"label": "Option A", "value": "option_a"}, {"label": "Option B", "value": "option_b"}]},'',
      ''       "addons": []'',
      ''     }'',
      ''   }'',
      '''',
      ''2. For location (lat_lon) fields:'',
      ''   REQUIRED: Use "map" as the editor name'',
      ''   {'',
      ''     "field_type": "lat_lon",'',
      ''     "appearance": {'',
      ''       "editor": "map",'',
      ''       "parameters": {},'',
      ''       "addons": []'',
      ''     }'',
      ''   }'',
      '''',
      ''3. For text fields:'',
      ''   REQUIRED: Include empty addons array'',
      ''   {'',
      ''     "field_type": "text",'',
      ''     "appearance": {'',
      ''       "editor": "textarea",'',
      ''       "parameters": {"placeholder": "Enter text..."},'',
      ''       "addons": []'',
      ''     }'',
      ''   }'',
      '''',
      ''Field Type: '' @ ft,
      ''Editor: '' @ ed,
      ''Error Details: '' @ errorMessage]\<close>

definition field_created_message :: "jsval \<Rightarrow> string" where
  "field_created_message field =
     ''Field '' @ sq @ js_string (get_prop field ''label'') @ sq @
     '' created successfully with ID: '' @ js_string (get_prop field ''id'')"

subsection \<open>Field-type specific validation (the checks before the client is built)\<close>

text \<open>
  Lines 61 to 71: a string field with the \<open>single_line\<close> editor gets the parameter
  \<open>heading: false\<close> when it has none. The source writes into the appearance object
  of the arguments; the model returns the appearance as written.
\<close>

definition default_heading :: "string \<Rightarrow> appearance option \<Rightarrow> appearance option" where
  "default_heading ft ap =
     (case ap of
        None \<Rightarrow> None
      | Some a \<Rightarrow>
          if ft = ''string'' \<and> editor a = ''single_line'' then
            (case parameters a of
               None \<Rightarrow> Some (a\<lparr>parameters := Some [(''heading'', Bool False)]\<rparr>)
             | Some ps \<Rightarrow>
                 if get_prop (Obj ps) ''heading'' = Undefined
                 then Some (a\<lparr>parameters := Some (set_prop ''heading'' (Bool False) ps)\<rparr>)
                 else Some a)
          else Some a)"

text \<open>\<open>appearance && (appearance.editor === 'string_radio_group' || appearance.editor === 'string_select')\<close>\<close>

definition radio_or_select :: "appearance option \<Rightarrow> bool" where
  "radio_or_select ap =
     (case ap of
        None \<Rightarrow> False
      | Some a \<Rightarrow> editor a = ''string_radio_group'' \<or> editor a = ''string_select'')"

definition editor_of :: "appearance option \<Rightarrow> string" where
  "editor_of ap = (case ap of None \<Rightarrow> [] | Some a \<Rightarrow> editor a)"

text \<open>
  Lines 95 to 103: whether the values of the radio or select options differ from the
  values of the enum validator. \<open>.map\<close> on what is not an array, and \<open>o.value\<close> on a
  null option, throw a TypeError.
\<close>

definition enum_mismatch :: "appearance option \<Rightarrow> jsval list \<Rightarrow> exn + bool" where
  "enum_mismatch ap enumValues =
     (let ps = Obj (parameters_or_empty ap);
          opts = js_or (js_or (get_prop ps ''radios'') (get_prop ps ''options'')) (Arr [])
      in case opts of
           Arr os \<Rightarrow>
             if list_ex nullish os then Inl TypeError
             else
               let optionValues = map (\<lambda>ov. get_prop ov ''value'') os in
               Inr (length optionValues \<noteq> length enumValues \<or>
                    list_ex (\<lambda>(v, ev). \<not> strict_eq v ev) (zip optionValues enumValues))
         | _ \<Rightarrow> Inl TypeError)"

text \<open>Lines 87 to 109.\<close>

definition check_enum_values :: "create_field_params \<Rightarrow> appearance option \<Rightarrow> exn option" where
  "check_enum_values args ap =
     (if field_type args = ''string'' \<and> radio_or_select ap \<and> validators args \<noteq> None \<and>
         truthy (validator args ''enum'')
      then (case get_prop (validator args ''enum'') ''values'' of
              Arr enumValues \<Rightarrow>
                (case enum_mismatch ap enumValues of
                   Inl e \<Rightarrow> Some e
                 | Inr mismatch \<Rightarrow> if mismatch then Some (Error enum_mismatch_message) else None)
            | _ \<Rightarrow> None)
      else None)"

text \<open>
  \<open>!Array.isArray(v.item_types) || (v.item_types?.length ?? 0) === 0\<close> for a truthy
  validator \<open>v\<close> (lines 123, 124 and 143, 144).
\<close>

definition no_item_types :: "jsval \<Rightarrow> bool" where
  "no_item_types v =
     (\<not> isArray (get_prop v ''item_types'') \<or>
      (case get_prop v ''item_types'' of Arr xs \<Rightarrow> length xs = 0 | _ \<Rightarrow> True))"

text \<open>
  Lines 38 to 160, in the order of the source: the first rule that is violated throws.
  The result is the exception, or the appearance after line 71.
\<close>

definition check_field_rules :: "create_field_params \<Rightarrow> exn + appearance option" where
  "check_field_rules args =
     (let ft = field_type args; ap = default_heading (field_type args) (appearance args) in
      if ft = ''rich_text'' \<and>
         (validators args = None \<or> \<not> truthy (validator args ''rich_text_blocks''))
      then Inl (Error missing_rich_text_blocks_message)
      else if ft = ''structured_text'' \<and>
         (validators args = None \<or> \<not> truthy (validator args ''structured_text_blocks''))
      then Inl (Error missing_structured_text_blocks_message)
      else if ft = ''single_block'' \<and>
         (validators args = None \<or> \<not> truthy (validator args ''single_block_blocks''))
      then Inl (Error missing_single_block_blocks_message)
      else if ft = ''string'' \<and> radio_or_select ap \<and>
         (validators args = None \<or> \<not> truthy (validator args ''enum''))
      then Inl (Error (missing_enum_message (editor_of ap)))
      else case check_enum_values args ap of
        Some e \<Rightarrow> Inl e
      | None \<Rightarrow>
      if ft = ''link'' \<and>
         (validators args = None \<or> \<not> truthy (validator args ''item_item_type''))
      then Inl (Error missing_item_item_type_message)
      else if ft = ''link'' \<and> truthy (validator args ''item_item_type'') \<and>
         no_item_types (validator args ''item_item_type'')
      then Inl (Error item_item_type_array_message)
      else if ft = ''links'' \<and>
         (validators args = None \<or> \<not> truthy (validator args ''items_item_type''))
      then Inl (Error missing_items_item_type_message)
      else if ft = ''links'' \<and> truthy (validator args ''items_item_type'') \<and>
         no_item_types (validator args ''items_item_type'')
      then Inl (Error items_item_type_array_message)
      else if validators args \<noteq> None \<and> validator args ''required'' \<noteq> Undefined \<and>
         (ft = ''gallery'' \<or> ft = ''links'' \<or> ft = ''rich_text'')
      then Inl (Error required_not_supported_message)
      else Inr ap)"

subsection \<open>The appearance handed to the client\<close>

text \<open>Lines 162 to 200.\<close>

definition process_appearance :: "string \<Rightarrow> appearance option \<Rightarrow> appearance option" where
  "process_appearance ft ap =
     (let pa1 = (case ap of
                   None \<Rightarrow> None
                 | Some a \<Rightarrow> if addons a = None then Some (a\<lparr>addons := Some []\<rparr>) else Some a);
          pa2 = (case pa1 of
                   None \<Rightarrow> None
                 | Some a \<Rightarrow>
                     if ft = ''lat_lon'' \<and> editor a = ''lat_lon_editor''
                     then Some (a\<lparr>editor := ''map''\<rparr>) else Some a);
          pa3 = (if ft = ''color''
                 then Some \<lparr>editor = ''color_picker'',
                            parameters = Some (spread [(''enable_alpha'', Bool False)]
                                                 (parameters_or_empty pa2)),
                            addons = Some (addons_or_empty pa2)\<rparr>
                 else pa2);
          pa4 = (if ft = ''structured_text''
                 then Some \<lparr>editor = ''structured_text'',
                            parameters = Some (spread [(''blocks_start_collapsed'', Bool False),
                                                       (''show_links_target_blank'', Bool True),
                                                       (''show_links_meta_editor'', Bool True)]
                                                 (parameters_or_empty pa3)),
                            addons = Some (addons_or_empty pa3)\<rparr>
                 else pa3)
      in pa4)"

text \<open>Lines 202 to 208.\<close>

definition check_slug :: "create_field_params \<Rightarrow> exn option" where
  "check_slug args =
     (if field_type args = ''slug'' \<and>
         (validators args = None \<or> \<not> truthy (validator args ''slug_title_field''))
      then Some (Error missing_slug_title_field_message) else None)"

text \<open>\<open>getDefaultEditor\<close>\<close>

definition editorMap :: "(string \<times> string) list" where
  "editorMap =
     [(''string'', ''single_line''),
      (''text'', ''textarea''),
      (''rich_text'', ''rich_text''),
      (''structured_text'', ''structured_text''),
      (''boolean'', ''boolean''),
      (''integer'', ''integer''),
      (''float'', ''float''),
      (''date'', ''date_picker''),
      (''date_time'', ''date_time_picker''),
      (''file'', ''file''),
      (''gallery'', ''gallery''),
      (''link'', ''link_select''),
      (''links'', ''links_select''),
      (''color'', ''color_picker''),
      (''json'', ''json_editor''),
      (''lat_lon'', ''map''),
      (''seo'', ''seo''),
      (''video'', ''video''),
      (''slug'', ''slug''),
      (''single_block'', ''framed_single_block'')]"

definition getDefaultEditor :: "string \<Rightarrow> string" where
  "getDefaultEditor fieldType =
     (case map_of editorMap fieldType of Some e \<Rightarrow> e | None \<Rightarrow> ''default_editor'')"

text \<open>\<open>restFieldData\<close>: the arguments without the six destructured properties.\<close>

definition restFieldData :: "create_field_params \<Rightarrow> (string \<times> jsval) list" where
  "restFieldData args =
     [(''label'', Str (label args))] @
     (case apiKey args of None \<Rightarrow> [] | Some k \<Rightarrow> [(''apiKey'', Str k)]) @
     additional args"

text \<open>Lines 215 to 225.\<close>

definition fieldData :: "create_field_params \<Rightarrow> appearance option \<Rightarrow> jsval" where
  "fieldData args processedAppearance =
     Obj (set_prop ''appearance''
            (case processedAppearance of
               Some a \<Rightarrow> appearance_obj a
             | None \<Rightarrow> Obj [(''editor'', Str (getDefaultEditor (field_type args))),
                            (''parameters'', Obj []),
                            (''addons'', Arr [])])
         (set_prop ''validators''
            (Obj (case validators args of None \<Rightarrow> [] | Some vs \<Rightarrow> vs))
         (set_prop ''field_type'' (Str (field_type args))
         (restFieldData args))))"

subsection \<open>The catch block: rewriting the upstream error\<close>

text \<open>
  Lines 236 to 347. \<open>errorMessage\<close> is the text \<open>extractDetailedErrorInfo\<close> gives, a
  string, so the test \<open>typeof errorMessage === 'string'\<close> holds. Every branch throws an
  \<open>Error\<close>; the function gives its message.
\<close>

definition rewrite_error_message :: "create_field_params \<Rightarrow> string \<Rightarrow> string" where
  "rewrite_error_message args errorMessage =
     (if str_includes errorMessage ''addons'' then addons_required_message
      else if str_includes errorMessage ''rich_text_blocks'' then rich_text_blocks_required_message
      else if str_includes errorMessage ''start_collapsed'' then start_collapsed_message
      else if str_includes errorMessage ''item_item_type'' then invalid_item_item_type_message
      else if str_includes errorMessage ''items_item_type'' then invalid_items_item_type_message
      else if field_type args = ''color'' then color_field_message
      else if str_includes errorMessage ''appearance.editor'' then
        (if field_type args = ''lat_lon'' then lat_lon_editor_message errorMessage
         else if field_type args = ''json'' then json_editor_message errorMessage
         else invalid_editor_message (field_type args) errorMessage)
      else if str_includes errorMessage ''INVALID_FORMAT'' \<or>
              str_includes errorMessage ''INVALID_FIELD''
      then invalid_configuration_message (field_type args)
             (if editor_of (appearance args) \<noteq> [] then editor_of (appearance args)
              else ''not specified'')
             errorMessage
      else ''Error creating field: '' @ errorMessage)"

subsection \<open>The handler\<close>

text \<open>
  Lines 229 to 235: the client's call and the response built from the field it
  returns. Reading \<open>field.label\<close> of a null or undefined field throws a TypeError.
\<close>

definition create_and_respond ::
  "'a deps_scheme \<Rightarrow> client \<Rightarrow> string \<Rightarrow> jsval \<Rightarrow> exn + jsval" where
  "create_and_respond env cl item_type_id data =
     (case fields_create cl item_type_id data of
        Inl e \<Rightarrow> Inl e
      | Inr field \<Rightarrow>
          if nullish field then Inl TypeError
          else Inr (createResponse env
                 (Obj [(''success'', Bool True),
                       (''data'', field),
                       (''message'', Str (field_created_message field))])))"

text \<open>
  The function given to \<open>createCustomHandler\<close>. The result is the list of calls made
  on the external client and what the function returns or throws.
\<close>

definition createFieldHandler ::
  "'a deps_scheme \<Rightarrow> create_field_params \<Rightarrow> client_call list \<times> (exn + jsval)" where
  "createFieldHandler env args =
     (case check_field_rules args of
        Inl e \<Rightarrow> ([], Inl e)
      | Inr ap \<Rightarrow>
          let processedAppearance = process_appearance (field_type args) ap in
          (case check_slug args of
             Some e \<Rightarrow> ([], Inl e)
           | None \<Rightarrow>
               (case getDefaultClient env (apiToken args) (environment args) of
                  Inl e \<Rightarrow> ([], Inl e)
                | Inr cl \<Rightarrow>
                    ([FieldsCreate (itemTypeId args) (fieldData args processedAppearance)],
                     case create_and_respond env cl (itemTypeId args)
                            (fieldData args processedAppearance) of
                       Inr response \<Rightarrow> Inr response
                     | Inl e \<Rightarrow>
                         Inl (Error (rewrite_error_message args
                                       (extractDetailedErrorInfo env e)))))))"

section \<open>The project router\<close>

text \<open>
  A validation schema of the registry (\<open>./schemas\<close>, built with the zod library): its
  \<open>description\<close> property, what \<open>describe()\<close> returns (the properties of the
  returned object that \<open>JSON.stringify\<close> prints) or throws, and \<open>parse\<close>, which
  returns the validated arguments or throws, a \<open>ZodError\<close> for arguments that do not
  match.
\<close>

record schema =
  description :: "string option"
  describe :: "exn + (string \<times> jsval) list"
  parse :: "jsval \<Rightarrow> exn + jsval"

text \<open>
  What the router imports beside the utilities: the schema of each action and the list
  of action names (\<open>./schemas\<close>), the two handlers, and \<open>assertNever\<close>
  (\<open>utils/exhaustive\<close>), whose result type is \<open>never\<close>: it throws, and the
  parameter is the exception. \<open>positive_number_text s\<close> says whether the string
  \<open>s\<close>, read as a number, is greater than zero (the comparison \<open>v > 0\<close> on a value
  that is not a number).
\<close>

record router_deps = deps +
  projectSchemas :: "string \<Rightarrow> schema option"
  projectActionsList :: "string list"
  getProjectInfoHandler :: "jsval \<Rightarrow> exn + jsval"
  updateSiteSettingsHandler :: "jsval \<Rightarrow> exn + jsval"
  assertNever :: "string \<Rightarrow> string \<Rightarrow> exn"
  positive_number_text :: "string \<Rightarrow> bool"

text \<open>\<open>v > 0\<close>\<close>

definition js_gt_zero :: "'a router_deps_scheme \<Rightarrow> jsval \<Rightarrow> bool" where
  "js_gt_zero env v =
     (case v of
        Undefined \<Rightarrow> False
      | Null \<Rightarrow> False
      | Bool b \<Rightarrow> b
      | Num n \<Rightarrow> 0 < n
      | _ \<Rightarrow> positive_number_text env (js_string v))"

subsection \<open>The texts of the router\<close>

definition warning_sign :: string where
  "warning_sign = [CHR 0xE2, CHR 0x9A, CHR 0xA0, CHR 0xEF, CHR 0xB8, CHR 0x8F]"

definition parameters_required_message :: "string \<Rightarrow> string" where
  \<open>parameters_required_message action = js_join nl
     [warning_sign @ '' PARAMETERS REQUIRED: You need to specify the parameters for the '' @
        sq @ action @ sq @ '' action. '' @ warning_sign,
      '''',
      ''To get the required parameters, use the datocms_parameters tool first with:'',
      ''{'',
      ''  "resource": "project",'',
      ''  "action": "'' @ action @ ''"'',
      ''}'',
      '''',
      ''This will show you all the required parameters and their types.'']\<close>

definition unsupported_action_message :: "string \<Rightarrow> string list \<Rightarrow> string" where
  "unsupported_action_message action actions =
     ''Error: Unsupported action '' @ sq @ action @ sq @ ''. Valid actions are: '' @
     js_join '', '' actions"

definition validation_error_message :: "string \<Rightarrow> string \<Rightarrow> string \<Rightarrow> string" where
  \<open>validation_error_message action errorFormatted schemaText = js_join nl
     [warning_sign @ '' VALIDATION ERROR: Your parameters for '' @ sq @ action @ sq @
        '' are incorrect or incomplete! '' @ warning_sign,
      '''',
      errorFormatted,
      '''',
      ''REQUIRED PARAMETERS FOR '' @ sq @ toUpperCase action @ sq @ '' ACTION:'',
      schemaText,
      '''',
      ''To see proper documentation, use the 'datocms_parameters' tool first with:'',
      '''',
      ''  action: "datocms_parameters",'',
      ''  args: {'',
      ''    resource: "project",'',
      ''    action: "'' @ action @ ''"'',
      ''  }'']\<close>

subsection \<open>formatSchemaForDisplay and formatZodError\<close>

definition formatSchemaForDisplay :: "schema \<Rightarrow> jsval" where
  "formatSchemaForDisplay sch =
     (let description_text =
            (case description sch of
               None \<Rightarrow> ''No description available''
             | Some d \<Rightarrow> if d \<noteq> [] then d else ''No description available'')
      in case describe sch of
           Inr schemaDescription \<Rightarrow>
             Obj (set_prop ''note''
                    (Str ''For more detailed parameter information, use the 'datocms_parameters' tool'')
                    schemaDescription)
         | Inl e \<Rightarrow>
             Obj [(''type'', Str ''object''),
                  (''description'', Str description_text),
                  (''note'', Str ''Schema details unavailable. Use the 'datocms_parameters' tool for parameter information.'')])"

definition issue_line :: "zod_issue \<Rightarrow> string" where
  "issue_line issue = ''- '' @ array_join ''.'' (path issue) @ '': '' @ message issue"

definition formatZodError :: "zod_issue list \<Rightarrow> string" where
  "formatZodError issues = js_join nl (map issue_line issues)"

subsection \<open>Normalising the handler's result (lines 100 to 136)\<close>

text \<open>The callback of \<open>validationErrors.map\<close>; reading \<open>err.field\<close> of null throws.\<close>

definition validation_error_line :: "jsval \<Rightarrow> string" where
  "validation_error_line err =
     ''  - '' @ js_string (js_or (get_prop err ''field'') (Str ''General'')) @ '': '' @
     js_string (get_prop err ''message'')"

definition normalize_result :: "'a router_deps_scheme \<Rightarrow> jsval \<Rightarrow> exn + jsval" where
  "normalize_result env handlerResult =
     (if truthy handlerResult \<and> typeof_object handlerResult \<and> has_key handlerResult ''content''
      then Inr handlerResult
      else if truthy handlerResult \<and> typeof_object handlerResult \<and>
              has_key handlerResult ''success''
      then
        (if truthy (get_prop handlerResult ''success'') then
           (let responseContent =
                  stringify env (js_or (get_prop handlerResult ''data'') (Obj []));
                response =
                  (if truthy (get_prop handlerResult ''message'')
                   then responseContent @ nl @ nl @ js_string (get_prop handlerResult ''message'')
                   else responseContent)
            in Inr (createResponse env (Str response)))
         else if truthy (get_prop handlerResult ''validationErrors'') \<and>
                 js_gt_zero env (get_prop (get_prop handlerResult ''validationErrors'') ''length'')
         then
           (case get_prop handlerResult ''validationErrors'' of
              Arr errs \<Rightarrow>
                if list_ex nullish errs then Inl TypeError
                else Inr (createErrorResponse env (Str
                       (js_string (js_or (get_prop handlerResult ''error'') (Str ''Validation failed'')) @
                        nl @ nl @ ''Validation errors:'' @ nl @
                        js_join nl (map validation_error_line errs))))
            | _ \<Rightarrow> Inl TypeError)
         else Inr (createErrorResponse env
                (js_or (get_prop handlerResult ''error'') (Str ''Unknown error occurred''))))
      else Inr (createResponse env (JSON_stringify env handlerResult)))"

subsection \<open>The router\<close>

text \<open>Lines 78 to 98: validation and dispatch, the start of the inner \<open>try\<close> block.\<close>

definition dispatch :: "'a router_deps_scheme \<Rightarrow> string \<Rightarrow> schema \<Rightarrow> jsval \<Rightarrow> exn + jsval" where
  "dispatch env action actionSchema args =
     (case parse actionSchema args of
        Inl e \<Rightarrow> Inl e
      | Inr validatedArgs \<Rightarrow>
          if action = ''get_info'' then getProjectInfoHandler env validatedArgs
          else if action = ''update_site_settings'' then updateSiteSettingsHandler env validatedArgs
          else Inl (assertNever env action (''Unhandled project action: '' @ action)))"

text \<open>Lines 77 to 136: the inner \<open>try\<close> block.\<close>

definition validate_and_run :: "'a router_deps_scheme \<Rightarrow> string \<Rightarrow> schema \<Rightarrow> jsval \<Rightarrow> exn + jsval" where
  "validate_and_run env action actionSchema args =
     (case dispatch env action actionSchema args of
        Inl e \<Rightarrow> Inl e
      | Inr handlerResult \<Rightarrow> normalize_result env handlerResult)"

text \<open>Lines 137 to 155: the inner \<open>catch\<close> block.\<close>

definition validation_failed :: "'a router_deps_scheme \<Rightarrow> string \<Rightarrow> schema \<Rightarrow> exn \<Rightarrow> exn + jsval" where
  "validation_failed env action actionSchema e =
     (case e of
        ZodError issues \<Rightarrow>
          Inr (createErrorResponse env (Str
            (validation_error_message action (formatZodError issues)
               (stringify env (formatSchemaForDisplay actionSchema)))))
      | _ \<Rightarrow>
          Inr (createErrorResponse env (Str
            (''Error validating arguments: '' @ extractDetailedErrorInfo env e))))"

text \<open>Lines 50 to 155: the outer \<open>try\<close> block. \<open>args\<close> is the argument bag after
  the default \<open>args = {}\<close>.\<close>

definition router_body :: "'a router_deps_scheme \<Rightarrow> string \<Rightarrow> (string \<times> jsval) list \<Rightarrow> exn + jsval" where
  "router_body env action args =
     (if length (map fst args) = 0 then
        Inr (createErrorResponse env (Str (parameters_required_message action)))
      else
        (case projectSchemas env action of
           None \<Rightarrow>
             Inr (createErrorResponse env (Str
               (unsupported_action_message action (projectActionsList env))))
         | Some actionSchema \<Rightarrow>
             (case validate_and_run env action actionSchema (Obj args) of
                Inr response \<Rightarrow> Inr response
              | Inl e \<Rightarrow> validation_failed env action actionSchema e)))"

text \<open>
  The handler registered for the tool \<open>datocms_project\<close> (lines 48 to 159):
  \<open>rawArgs\<close> is \<open>None\<close> when the caller left \<open>args\<close> out.
\<close>

definition projectRouter ::
  "'a router_deps_scheme \<Rightarrow> string \<Rightarrow> (string \<times> jsval) list option \<Rightarrow> exn + jsval" where
  "projectRouter env action rawArgs =
     (let args = (case rawArgs of None \<Rightarrow> [] | Some a \<Rightarrow> a) in
      case router_body env action args of
        Inr response \<Rightarrow> Inr response
      | Inl e \<Rightarrow>
          Inr (createErrorResponse env (Str
            (''Error in Project Router: '' @ extractDetailedErrorInfo env e))))"

text \<open>
  Modelled from the spec: the validation engine (the zod library, which is not part of
  the repository's files). The spec (4.2) has validation structural and type-directed:
  every field declared in the schema is checked for presence (if required) and for
  primitive or shape conformance (string, number, boolean, object, array,
  enum-of-literals, nested object); unknown extra fields are passed through; on failure
  the engine produces a (path, message) pair for every violating field. A \<open>shape\<close>
  is what a schema declares; an object shape lists its fields, each with its name,
  whether it is required, and its own shape. \<open>shape_issues p s v\<close> lists the
  violations of the value \<open>v\<close> against \<open>s\<close>, the paths starting with \<open>p\<close>;
  \<open>parse_shape s\<close> is the \<open>parse\<close> of a schema that declares \<open>s\<close>. The spec gives
  no message texts: the texts here are the model's.
\<close>

datatype shape =
    AnyShape
  | StringShape
  | NumberShape
  | BooleanShape
  | EnumShape "string list"
  | ArrayShape shape
  | ObjectShape "(string \<times> bool \<times> shape) list"

fun shape_issues :: "jsval list \<Rightarrow> shape \<Rightarrow> jsval \<Rightarrow> zod_issue list" where
  "shape_issues p AnyShape v = []"
| "shape_issues p StringShape v =
     (case v of Str s \<Rightarrow> [] | _ \<Rightarrow> [\<lparr>path = p, message = ''Expected string''\<rparr>])"
| "shape_issues p NumberShape v =
     (case v of Num n \<Rightarrow> [] | _ \<Rightarrow> [\<lparr>path = p, message = ''Expected number''\<rparr>])"
| "shape_issues p BooleanShape v =
     (case v of Bool b \<Rightarrow> [] | _ \<Rightarrow> [\<lparr>path = p, message = ''Expected boolean''\<rparr>])"
| "shape_issues p (EnumShape literals) v =
     (case v of
        Str s \<Rightarrow> if s \<in> set literals then []
                 else [\<lparr>path = p, message = ''Invalid enum value''\<rparr>]
      | _ \<Rightarrow> [\<lparr>path = p, message = ''Invalid enum value''\<rparr>])"
| "shape_issues p (ArrayShape s) v =
     (case v of
        Arr xs \<Rightarrow> concat (map (\<lambda>ix. shape_issues (p @ [Num (int (fst ix))]) s (snd ix))
                             (enumerate 0 xs))
      | _ \<Rightarrow> [\<lparr>path = p, message = ''Expected array''\<rparr>])"
| "shape_issues p (ObjectShape decls) v =
     (case v of
        Obj kvs \<Rightarrow>
          concat (map (\<lambda>d. if get_prop (Obj kvs) (fst d) = Undefined
                            then (if fst (snd d)
                                  then [\<lparr>path = p @ [Str (fst d)], message = ''Required''\<rparr>]
                                  else [])
                            else shape_issues (p @ [Str (fst d)]) (snd (snd d))
                                   (get_prop (Obj kvs) (fst d)))
                      decls)
      | _ \<Rightarrow> [\<lparr>path = p, message = ''Expected object''\<rparr>])"

definition parse_shape :: "shape \<Rightarrow> jsval \<Rightarrow> exn + jsval" where
  "parse_shape s v =
     (if shape_issues [] s v = [] then Inr v else Inl (ZodError (shape_issues [] s v)))"


text \<open>
  What the router returns is an envelope: built by \<open>createResponse\<close> or
  \<open>createErrorResponse\<close>, or the handler's own object that has a \<open>content\<close>.
\<close>

definition is_envelope :: "'a router_deps_scheme \<Rightarrow> jsval \<Rightarrow> bool" where
  "is_envelope env r =
     ((\<exists>payload. r = createResponse env payload) \<or>
      (\<exists>payload. r = createErrorResponse env payload) \<or>
      (truthy r \<and> typeof_object r \<and> has_key r ''content''))"

section \<open>Example data\<close>

text \<open>
  A concrete client, concrete utilities and concrete arguments, on which the
  properties below are evaluated, and the fragments of the messages the properties
  look for. The client gives the same reply to every call.
\<close>

definition demo_extract :: "exn \<Rightarrow> string" where
  "demo_extract e =
     (case e of
        Error m \<Rightarrow> m
      | TypeError \<Rightarrow> ''TypeError''
      | ZodError issues \<Rightarrow> formatZodError issues
      | Thrown v \<Rightarrow> js_string v)"

definition demo_client :: "(exn + jsval) \<Rightarrow> client" where
  "demo_client reply =
     \<lparr>fields_create = (\<lambda>item_type_id data. reply), items_duplicate = (\<lambda>item_id. reply)\<rparr>"

definition demo_response :: "jsval \<Rightarrow> jsval" where
  "demo_response payload = Obj [(''content'', Arr [Obj [(''type'', Str ''text''), (''text'', payload)]])]"

definition demo_error_response :: "jsval \<Rightarrow> jsval" where
  "demo_error_response payload =
     Obj [(''content'', Arr [Obj [(''type'', Str ''text''), (''text'', payload)]]),
          (''isError'', Bool True)]"

text \<open>
  A stand-in for \<open>JSON.stringify(v, null, 2)\<close> in the examples: it prints the value
  on one line and does not escape the characters of a string.
\<close>

fun demo_stringify :: "jsval \<Rightarrow> string" where
  "demo_stringify Undefined = ''undefined''"
| "demo_stringify Null = ''null''"
| "demo_stringify (Bool b) = (if b then ''true'' else ''false'')"
| "demo_stringify (Num n) = show_int n"
| "demo_stringify (Str s) = [CHR 0x22] @ s @ [CHR 0x22]"
| "demo_stringify (Arr xs) = ''['' @ js_join '','' (map demo_stringify xs) @ '']''"
| "demo_stringify (Obj kvs) =
     ''{'' @ js_join '','' (map (\<lambda>kv. [CHR 0x22] @ fst kv @ [CHR 0x22] @ '':'' @
                                      demo_stringify (snd kv)) kvs) @ ''}''"

definition demo_deps :: "(exn + jsval) \<Rightarrow> deps" where
  "demo_deps reply =
     \<lparr>createResponse = demo_response,
      createErrorResponse = demo_error_response,
      extractDetailedErrorInfo = demo_extract,
      getDefaultClient = (\<lambda>token env_name. Inr (demo_client reply)),
      stringify = demo_stringify\<rparr>"

definition demo_duplicate_args :: "bool option \<Rightarrow> duplicate_params" where
  "demo_duplicate_args flag =
     \<lparr>apiToken = Str ''token'', environment = Undefined,
      itemId = ''r1'', returnOnlyConfirmation = flag\<rparr>"

definition demo_record :: jsval where
  "demo_record = Obj [(''id'', Str ''r2''), (''title'', Str ''Hello'')]"

definition demo_field_args ::
  "string \<Rightarrow> (string \<times> jsval) list option \<Rightarrow> appearance option \<Rightarrow> create_field_params" where
  "demo_field_args ft vs ap =
     \<lparr>apiToken = Str ''token'', environment = Undefined,
      itemTypeId = ''m1'', field_type = ft, label = ''Title'', apiKey = Some ''title'',
      validators = vs, appearance = ap, additional = []\<rparr>"

definition demo_field :: jsval where
  "demo_field = Obj [(''id'', Str ''f1''), (''label'', Str ''Title'')]"

definition rich_text_blocks_example :: string where
  \<open>rich_text_blocks_example =
     ''{ "rich_text_blocks": { "item_types": ["block_model_id1", "block_model_id2"] } }''\<close>

definition item_types_example :: string where
  \<open>item_types_example = ''"item_types": ["your_item_type_id"]''\<close>

definition item_types_requirement :: string where
  \<open>item_types_requirement =
     ''validator must include an 'item_types' array with at least one valid item type ID.''\<close>

definition demo_color_args :: "(string \<times> jsval) list option \<Rightarrow> create_field_params" where
  "demo_color_args ps =
     demo_field_args ''color'' None
       (Some \<lparr>editor = ''color_wheel'', parameters = ps, addons = None\<rparr>)"

definition demo_lat_lon_args :: create_field_params where
  "demo_lat_lon_args =
     demo_field_args ''lat_lon'' None
       (Some \<lparr>editor = ''lat_lon_editor'', parameters = None, addons = None\<rparr>)"

definition demo_link_args :: create_field_params where
  "demo_link_args =
     demo_field_args ''link''
       (Some [(''item_item_type'', Obj [(''item_types'', Arr [Str ''m2''])])]) None"

definition upstream_item_types_error :: exn where
  "upstream_item_types_error =
     Thrown (Str ''422 INVALID_FIELD: validators.item_item_type.item_types has unknown item types'')"

definition upstream_two_problems_error :: exn where
  "upstream_two_problems_error =
     Thrown (Str ''422 INVALID_FIELD: validators.item_item_type.item_types has unknown item types; appearance.addons is missing'')"

text \<open>
  Two shapes that both require \<open>b\<close>: the first also requires \<open>a\<close>. What a zod
  schema's \<open>describe()\<close> returns is the library's; the example schema takes an
  object with one property for it, and \<open>undescribed_schema\<close> is a schema whose
  \<open>describe()\<close> throws, the case of the fallback in \<open>formatSchemaForDisplay\<close>.
\<close>

definition shape_a_b :: shape where
  "shape_a_b = ObjectShape [(''a'', True, NumberShape), (''b'', True, NumberShape)]"



definition demo_schema :: schema where
  "demo_schema =
     \<lparr>description = Some ''Arguments of the action'',
      describe = Inr [(''_def'', Obj [(''typeName'', Str ''ZodObject'')])],
      parse = parse_shape shape_a_b\<rparr>"



definition demo_router_deps :: "(exn + jsval) \<Rightarrow> router_deps" where
  "demo_router_deps handler_reply =
     \<lparr>createResponse = demo_response,
      createErrorResponse = demo_error_response,
      extractDetailedErrorInfo = demo_extract,
      getDefaultClient = (\<lambda>token env_name. Inr (demo_client (Inr Null))),
      stringify = demo_stringify,
      projectSchemas = (\<lambda>action. if action = ''get_info'' \<or> action = ''update_site_settings''
                                 then Some demo_schema else None),
      projectActionsList = [''get_info'', ''update_site_settings''],
      getProjectInfoHandler = (\<lambda>validatedArgs. handler_reply),
      updateSiteSettingsHandler = (\<lambda>validatedArgs. handler_reply),
      assertNever = (\<lambda>v msg. Error msg),
      positive_number_text = (\<lambda>s. False)\<rparr>"


section \<open>Auxiliary lemmas\<close>

lemma str_includes_iff: "str_includes s sub \<longleftrightarrow> (\<exists>a b. s = a @ sub @ b)"
proof (induction s)
  case Nil
  then show ?case by simp
next
  case (Cons c cs)
  show ?case
  proof
    assume "str_includes (c # cs) sub"
    then consider "prefix sub (c # cs)" | "str_includes cs sub" by auto
    then show "\<exists>a b. c # cs = a @ sub @ b"
    proof cases
      case 1
      then obtain zs where "c # cs = sub @ zs" by (auto simp: prefix_def)
      then have "c # cs = [] @ sub @ zs" by simp
      then show ?thesis by blast
    next
      case 2
      with Cons.IH obtain a b where "cs = a @ sub @ b" by blast
      then have "c # cs = (c # a) @ sub @ b" by simp
      then show ?thesis by blast
    qed
  next
    assume "\<exists>a b. c # cs = a @ sub @ b"
    then obtain a b where ab: "c # cs = a @ sub @ b" by blast
    show "str_includes (c # cs) sub"
    proof (cases a)
      case Nil
      with ab have "prefix sub (c # cs)" by (simp add: prefix_def)
      then show ?thesis by simp
    next
      case (Cons x a')
      with ab have "cs = a' @ sub @ b" by simp
      with Cons.IH have "str_includes cs sub" by blast
      then show ?thesis by simp
    qed
  qed
qed

lemma str_includes_mid: "str_includes (a @ sub @ b) sub"
  unfolding str_includes_iff by blast

lemma str_includes_trans:
  "str_includes s t \<Longrightarrow> str_includes t u \<Longrightarrow> str_includes s u"
  unfolding str_includes_iff
  by (metis append.assoc)

lemma str_includes_appendI1: "str_includes s u \<Longrightarrow> str_includes (s @ t) u"
  unfolding str_includes_iff by (metis append.assoc)

lemma str_includes_appendI2: "str_includes t u \<Longrightarrow> str_includes (s @ t) u"
  unfolding str_includes_iff by (metis append.assoc)

lemma str_includes_refl: "str_includes s s"
  using str_includes_mid [of "[]" s "[]"] by simp

lemma js_join_includes: "x \<in> set xs \<Longrightarrow> str_includes (js_join sep xs) x"
proof (induction sep xs rule: js_join.induct)
  case (1 sep)
  then show ?case by simp
next
  case (2 sep y)
  then show ?case by (simp add: str_includes_refl)
next
  case (3 sep y z zs)
  show ?case
  proof (cases "x = y")
    case True
    then show ?thesis
      using str_includes_mid [of "[]" y "sep @ js_join sep (z # zs)"] by simp
  next
    case False
    with 3 have "str_includes (js_join sep (z # zs)) x" by simp
    then have "str_includes (y @ (sep @ js_join sep (z # zs))) x"
      by (intro str_includes_appendI2)
    then show ?thesis by simp
  qed
qed

lemma map_of_set_prop: "map_of (set_prop k v kvs) k' = (if k' = k then Some v else map_of kvs k')"
  by (simp add: set_prop_def update_conv')

lemma map_of_spread:
  "map_of (spread base extra) k' =
     (case map_of (rev extra) k' of Some v \<Rightarrow> Some v | None \<Rightarrow> map_of base k')"
  unfolding spread_def
proof (induction extra arbitrary: base)
  case Nil
  then show ?case by simp
next
  case (Cons p extra)
  obtain k v where p: "p = (k, v)" by (cases p)
  show ?case
    by (simp add: p Cons.IH map_of_set_prop map_add_def split: option.splits)
qed

lemma map_of_rev_distinct: "distinct (map fst kvs) \<Longrightarrow> map_of (rev kvs) = map_of kvs"
  by (metis distinct_rev map_of_inject_set rev_map set_rev)

lemma get_prop_set_prop_same: "get_prop (Obj (set_prop k v kvs)) k = v"
  by (simp add: map_of_set_prop)

lemma default_heading_other:
  "ft \<noteq> ''string'' \<Longrightarrow> default_heading ft ap = ap"
  by (simp add: default_heading_def split: option.splits)

lemma check_enum_values_other:
  "field_type args \<noteq> ''string'' \<Longrightarrow> check_enum_values args ap = None"
  by (simp add: check_enum_values_def)

lemma no_item_types_iff:
  "no_item_types v \<longleftrightarrow> (\<forall>x xs. get_prop v ''item_types'' \<noteq> Arr (x # xs))"
proof (cases "get_prop v ''item_types''")
  case (Arr ys)
  then show ?thesis by (cases ys) (simp_all add: no_item_types_def)
qed (simp_all add: no_item_types_def)

lemma check_field_rules_color:
  assumes "field_type args = ''color''"
  shows "check_field_rules args = Inr (appearance args)"
proof -
  have "check_enum_values args (appearance args) = None"
    using assms by (simp add: check_enum_values_def)
  moreover have "default_heading ''color'' (appearance args) = appearance args"
    by (simp add: default_heading_other)
  ultimately show ?thesis
    using assms by (simp add: check_field_rules_def Let_def)
qed

lemma check_field_rules_lat_lon:
  assumes "field_type args = ''lat_lon''"
  shows "check_field_rules args = Inr (appearance args)"
proof -
  have "check_enum_values args (appearance args) = None"
    using assms by (simp add: check_enum_values_def)
  moreover have "default_heading ''lat_lon'' (appearance args) = appearance args"
    by (simp add: default_heading_other)
  ultimately show ?thesis
    using assms by (simp add: check_field_rules_def Let_def)
qed

lemma check_slug_other: "field_type args \<noteq> ''slug'' \<Longrightarrow> check_slug args = None"
  by (simp add: check_slug_def)

lemma process_appearance_color:
  "process_appearance ''color'' ap =
     Some \<lparr>editor = ''color_picker'',
           parameters = Some (spread [(''enable_alpha'', Bool False)] (parameters_or_empty ap)),
           addons = Some (addons_or_empty ap)\<rparr>"
  by (simp add: process_appearance_def parameters_or_empty_def addons_or_empty_def
      split: option.splits)

lemma process_appearance_lat_lon:
  assumes "editor a = ''lat_lon_editor''"
  shows "process_appearance ''lat_lon'' (Some a) =
           Some (a\<lparr>editor := ''map'', addons := Some (addons_or_empty (Some a))\<rparr>)"
  using assms
  by (simp add: process_appearance_def addons_or_empty_def split: option.splits)

lemma dispatched_call:
  assumes "check_field_rules args = Inr ap" and "check_slug args = None"
    and "getDefaultClient env (apiToken args) (environment args) = Inr cl"
  shows "fst (createFieldHandler env args) =
           [FieldsCreate (itemTypeId args)
              (fieldData args (process_appearance (field_type args) ap))]"
  using assms by (simp add: createFieldHandler_def Let_def)

lemma fieldData_appearance:
  "get_prop (fieldData args (Some a)) ''appearance'' = appearance_obj a"
  by (simp add: fieldData_def map_of_set_prop)

lemma map_of_rev_None: "map_of kvs k = None \<Longrightarrow> map_of (rev kvs) k = None"
  by (simp add: map_of_eq_None_iff)

lemma demo_link_args_rules:
  "check_field_rules demo_link_args = Inr None"
proof -
  have "check_enum_values demo_link_args None = None"
    by (simp add: check_enum_values_def demo_link_args_def demo_field_args_def)
  moreover have "default_heading ''link'' None = None"
    by (simp add: default_heading_def)
  moreover have "field_type demo_link_args = ''link''"
    and "appearance demo_link_args = None"
    and "validators demo_link_args =
           Some [(''item_item_type'', Obj [(''item_types'', Arr [Str ''m2''])])]"
    by (simp_all add: demo_link_args_def demo_field_args_def)
  ultimately show ?thesis
    by (simp add: check_field_rules_def Let_def validator_def no_item_types_def)
qed

lemma demo_link_args_call:
  "fst (createFieldHandler (demo_deps reply) demo_link_args) =
     [FieldsCreate ''m1'' (fieldData demo_link_args (process_appearance ''link'' None))]"
proof -
  have "check_slug demo_link_args = None"
    by (simp add: check_slug_def demo_link_args_def demo_field_args_def)
  moreover have "getDefaultClient (demo_deps reply) (apiToken demo_link_args)
      (environment demo_link_args) = Inr (demo_client reply)"
    by (simp add: demo_deps_def)
  moreover have "field_type demo_link_args = ''link''" and "itemTypeId demo_link_args = ''m1''"
    by (simp_all add: demo_link_args_def demo_field_args_def)
  ultimately show ?thesis
    using dispatched_call [OF demo_link_args_rules, of "demo_deps reply" "demo_client reply"]
    by simp
qed

lemma upstream_error_rewritten:
  assumes "check_field_rules args = Inr ap" and "check_slug args = None"
    and "getDefaultClient env (apiToken args) (environment args) = Inr cl"
    and "fields_create cl (itemTypeId args)
           (fieldData args (process_appearance (field_type args) ap)) = Inl e"
  shows "snd (createFieldHandler env args) =
           Inl (Error (rewrite_error_message args (extractDetailedErrorInfo env e)))"
  using assms by (simp add: createFieldHandler_def Let_def create_and_respond_def)

lemma normalize_result_envelope:
  "normalize_result env hr = Inr r \<Longrightarrow> is_envelope env r"
  unfolding normalize_result_def is_envelope_def Let_def
  by (auto split: if_splits jsval.splits)

lemma validation_failed_response:
  "\<exists>payload. validation_failed env action sch e = Inr (createErrorResponse env (Str payload))"
proof (cases e)
  case (ZodError issues)
  then show ?thesis unfolding validation_failed_def by (intro exI) simp
next
  case (Error m)
  then show ?thesis unfolding validation_failed_def by (intro exI) simp
next
  case TypeError
  then show ?thesis unfolding validation_failed_def by (intro exI) simp
next
  case (Thrown v)
  then show ?thesis unfolding validation_failed_def by (intro exI) simp
qed

lemma router_body_envelope:
  "\<exists>r. router_body env action args = Inr r \<and> is_envelope env r"
proof (cases "length (map fst args) = 0")
  case True
  then show ?thesis by (auto simp: router_body_def is_envelope_def)
next
  case False
  show ?thesis
  proof (cases "projectSchemas env action")
    case None
    with False show ?thesis by (auto simp: router_body_def is_envelope_def)
  next
    case (Some sch)
    show ?thesis
    proof (cases "validate_and_run env action sch (Obj args)")
      case (Inl e)
      obtain payload where "validation_failed env action sch e =
          Inr (createErrorResponse env (Str payload))"
        using validation_failed_response by blast
      with False Some Inl show ?thesis by (auto simp: router_body_def is_envelope_def)
    next
      case (Inr r)
      then have "is_envelope env r"
        by (auto simp: validate_and_run_def normalize_result_envelope split: sum.splits)
      with False Some Inr show ?thesis by (auto simp: router_body_def)
    qed
  qed
qed

lemma projectRouter_body:
  "router_body env action (case rawArgs of None \<Rightarrow> [] | Some a \<Rightarrow> a) = Inr r \<Longrightarrow>
   projectRouter env action rawArgs = Inr r"
  by (simp add: projectRouter_def)

lemma router_caught:
  assumes "args \<noteq> []" and "projectSchemas env action = Some sch"
    and "validate_and_run env action sch (Obj args) = Inl e"
  shows "projectRouter env action (Some args) = validation_failed env action sch e"
proof -
  obtain payload where p: "validation_failed env action sch e =
      Inr (createErrorResponse env (Str payload))"
    using validation_failed_response by blast
  from assms have "router_body env action args = validation_failed env action sch e"
    by (simp add: router_body_def)
  with p show ?thesis by (simp add: projectRouter_def)
qed

lemma demo_router_validated:
  "parse demo_schema (Obj [(''a'', Num 1), (''b'', Num 2)]) = Inr (Obj [(''a'', Num 1), (''b'', Num 2)])"
  by (simp add: demo_schema_def parse_shape_def shape_a_b_def)

lemma parameters_required_not_validation:
  "parameters_required_message action \<noteq> validation_error_message act fmt sch_text"
  by (simp add: parameters_required_message_def validation_error_message_def)

lemma parameters_required_names_tool:
  "str_includes (parameters_required_message action) ''datocms_parameters''"
proof -
  have "str_includes ''To get the required parameters, use the datocms_parameters tool first with:''
      ''datocms_parameters''"
    by simp
  moreover have "str_includes (parameters_required_message action)
      ''To get the required parameters, use the datocms_parameters tool first with:''"
    unfolding parameters_required_message_def by (rule js_join_includes) simp
  ultimately show ?thesis by (rule str_includes_trans [rotated])
qed











section \<open>Properties of the handlers and of the router\<close>

subsection \<open>The project router\<close>

text \<open>
  C1. For every action and every argument bag the router returns: its result is a
  response envelope, never an exception. When validation, the dispatched handler or
  the normalisation of its result throws, the router returns the envelope
  \<open>createErrorResponse\<close> builds from a text that contains the formatted issues (for a
  \<open>ZodError\<close>) or the extracted error text (for any other exception). The utilities
  \<open>createErrorResponse\<close> and \<open>extractDetailedErrorInfo\<close>, which the catch blocks
  call, are total.
\<close>

theorem router_never_throws:
  "(\<exists>r. projectRouter env action rawArgs = Inr r \<and> is_envelope env r) \<and>
   (\<forall>args sch e. rawArgs = Some args \<and> args \<noteq> [] \<and> projectSchemas env action = Some sch \<and>
        validate_and_run env action sch (Obj args) = Inl e \<longrightarrow>
      (\<exists>payload. projectRouter env action rawArgs =
           Inr (createErrorResponse env (Str payload)) \<and>
         str_includes payload
           (case e of ZodError issues \<Rightarrow> formatZodError issues
            | _ \<Rightarrow> extractDetailedErrorInfo env e)))"
proof (intro conjI allI impI)
  obtain r where "router_body env action (case rawArgs of None \<Rightarrow> [] | Some a \<Rightarrow> a) = Inr r"
    and "is_envelope env r"
    using router_body_envelope by blast
  then show "\<exists>r. projectRouter env action rawArgs = Inr r \<and> is_envelope env r"
    using projectRouter_body by blast
next
  fix args sch e
  assume h: "rawArgs = Some args \<and> args \<noteq> [] \<and> projectSchemas env action = Some sch \<and>
        validate_and_run env action sch (Obj args) = Inl e"
  then have eq: "projectRouter env action rawArgs = validation_failed env action sch e"
    using router_caught by blast
  show "\<exists>payload. projectRouter env action rawArgs =
           Inr (createErrorResponse env (Str payload)) \<and>
         str_includes payload
           (case e of ZodError issues \<Rightarrow> formatZodError issues
            | _ \<Rightarrow> extractDetailedErrorInfo env e)"
  proof (cases e)
    case (ZodError issues)
    have "str_includes
        (validation_error_message action (formatZodError issues)
           (stringify env (formatSchemaForDisplay sch)))
        (formatZodError issues)"
      unfolding validation_error_message_def by (rule js_join_includes) simp
    with eq ZodError show ?thesis by (auto simp: validation_failed_def)
  next
    case (Error m)
    have "str_includes (''Error validating arguments: '' @ extractDetailedErrorInfo env e)
        (extractDetailedErrorInfo env e)"
      by (intro str_includes_appendI2 str_includes_refl)
    with eq Error show ?thesis by (auto simp: validation_failed_def)
  next
    case TypeError
    have "str_includes (''Error validating arguments: '' @ extractDetailedErrorInfo env e)
        (extractDetailedErrorInfo env e)"
      by (intro str_includes_appendI2 str_includes_refl)
    with eq TypeError show ?thesis by (auto simp: validation_failed_def)
  next
    case (Thrown v)
    have "str_includes (''Error validating arguments: '' @ extractDetailedErrorInfo env e)
        (extractDetailedErrorInfo env e)"
      by (intro str_includes_appendI2 str_includes_refl)
    with eq Thrown show ?thesis by (auto simp: validation_failed_def)
  qed
qed

theorem router_never_throws_witness:
  "projectRouter (demo_router_deps (Inl (Error ''network down''))) ''get_info''
     (Some [(''a'', Num 1), (''b'', Num 2)]) =
   Inr (demo_error_response (Str ''Error validating arguments: network down'')) \<and>
   str_includes ''Error validating arguments: network down'' ''network down''"
proof -
  let ?env = "demo_router_deps (Inl (Error ''network down''))"
  let ?args = "[(''a'', Num 1), (''b'', Num 2)]"
  have sch: "projectSchemas ?env ''get_info'' = Some demo_schema"
    by (simp add: demo_router_deps_def)
  have run: "validate_and_run ?env ''get_info'' demo_schema (Obj ?args) =
      Inl (Error ''network down'')"
    by (simp add: validate_and_run_def dispatch_def demo_router_validated demo_router_deps_def)
  have ex: "extractDetailedErrorInfo ?env (Error ''network down'') = ''network down''"
    by (simp add: demo_router_deps_def demo_extract_def)
  have cr: "createErrorResponse ?env = demo_error_response"
    by (simp add: demo_router_deps_def)
  from router_never_throws [of ?env "''get_info''" "Some ?args"] sch run
  obtain payload where "projectRouter ?env ''get_info'' (Some ?args) =
      Inr (createErrorResponse ?env (Str payload))"
    by blast
  moreover have "projectRouter ?env ''get_info'' (Some ?args) =
      Inr (demo_error_response (Str ''Error validating arguments: network down''))"
    using router_caught [OF _ sch run] by (simp add: validation_failed_def ex cr)
  ultimately show ?thesis by simp
qed

text \<open>
  C2. With \<open>args\<close> left out or empty, for every action name (registered or not),
  the router returns the error response with the parameter-discovery guidance, which
  names the tool \<open>datocms_parameters\<close>; this text is no validation error text; and
  the result is the same whatever the schemas, the validation and the handlers are:
  none of them is consulted.
\<close>

theorem empty_args_guidance:
  fixes env :: "'a router_deps_scheme"
  assumes "rawArgs = None \<or> rawArgs = Some []"
  shows "projectRouter env action rawArgs =
           Inr (createErrorResponse env (Str (parameters_required_message action))) \<and>
         str_includes (parameters_required_message action) ''datocms_parameters'' \<and>
         (\<forall>act fmt sch_text.
            parameters_required_message action \<noteq> validation_error_message act fmt sch_text) \<and>
         (\<forall>other :: 'a router_deps_scheme.
            createErrorResponse other = createErrorResponse env \<longrightarrow>
            projectRouter other action rawArgs = projectRouter env action rawArgs)"
proof -
  have r: "projectRouter e action rawArgs =
      Inr (createErrorResponse e (Str (parameters_required_message action)))"
    for e :: "'a router_deps_scheme"
    using assms by (auto simp: projectRouter_def router_body_def)
  show ?thesis
    using r parameters_required_not_validation parameters_required_names_tool by simp
qed

theorem empty_args_guidance_witness:
  "projectRouter (demo_router_deps (Inr Null)) ''get_info'' None =
     Inr (demo_error_response (Str (parameters_required_message ''get_info''))) \<and>
   projectRouter (demo_router_deps (Inr Null)) ''get_info'' (Some []) =
     Inr (demo_error_response (Str (parameters_required_message ''get_info''))) \<and>
   projectRouter (demo_router_deps (Inr Null)) ''no_such_action'' (Some []) =
     Inr (demo_error_response (Str (parameters_required_message ''no_such_action'')))"
proof -
  have cr: "createErrorResponse (demo_router_deps (Inr Null)) = demo_error_response"
    by (simp add: demo_router_deps_def)
  show ?thesis
    using empty_args_guidance [of None "demo_router_deps (Inr Null)" "''get_info''"]
      empty_args_guidance [of "Some []" "demo_router_deps (Inr Null)" "''get_info''"]
      empty_args_guidance [of "Some []" "demo_router_deps (Inr Null)" "''no_such_action''"]
    by (simp add: cr)
qed




subsection \<open>The handlers\<close>

text \<open>
  C10. When the client's \<open>duplicate\<close> call returns null or undefined, the handler
  throws the error that names the identifier of the original record; it does not return
  a response.
\<close>

theorem duplicate_null_result_throws:
  assumes "getDefaultClient env (apiToken args) (environment args) = Inr cl"
    and "items_duplicate cl (itemId args) = Inr item"
    and "nullish item"
  shows "duplicateRecordHandler env args =
           ([ItemsDuplicate (itemId args)], Inl (Error (duplicate_failed_message (itemId args)))) \<and>
         str_includes (duplicate_failed_message (itemId args)) (itemId args)"
proof -
  from assms(3) have "\<not> truthy item" by (cases item) simp_all
  with assms(1,2) have "duplicateRecordHandler env args =
      ([ItemsDuplicate (itemId args)], Inl (Error (duplicate_failed_message (itemId args))))"
    by (simp add: duplicateRecordHandler_def)
  moreover have "str_includes (duplicate_failed_message (itemId args)) (itemId args)"
    unfolding duplicate_failed_message_def
    by (intro str_includes_appendI2 str_includes_appendI1 str_includes_refl)
  ultimately show ?thesis by simp
qed

theorem duplicate_null_result_throws_witness:
  "duplicateRecordHandler (demo_deps (Inr Null)) (demo_duplicate_args None) =
     ([ItemsDuplicate ''r1''], Inl (Error ''Failed to duplicate record with ID 'r1'.'')) \<and>
   str_includes ''Failed to duplicate record with ID 'r1'.'' ''r1''"
  using duplicate_null_result_throws [of "demo_deps (Inr Null)" "demo_duplicate_args None"
      "demo_client (Inr Null)" Null]
  by (simp add: demo_deps_def demo_client_def demo_duplicate_args_def
      duplicate_failed_message_def sq_def)

text \<open>
  C8. After a successful duplication (the client returned a record), with
  \<open>returnOnlyConfirmation\<close> true the response is the stringified object that holds
  \<open>success\<close> and a message; the message contains the original identifier and the
  new identifier, and the response is the same for every duplicated record with that
  identifier: nothing else of the record is in it. With the flag false or absent the
  response is the stringified duplicated record.
\<close>

theorem duplicate_confirmation_or_payload:
  assumes "getDefaultClient env (apiToken args) (environment args) = Inr cl"
    and "items_duplicate cl (itemId args) = Inr item"
    and "truthy item"
  shows "(returnOnlyConfirmation args = Some True \<longrightarrow>
            snd (duplicateRecordHandler env args) =
              Inr (createResponse env (JSON_stringify env
                (Obj [(''success'', Bool True),
                      (''message'', Str (duplicate_confirmation_message (itemId args)
                                           (get_prop item ''id'')))]))) \<and>
            str_includes (duplicate_confirmation_message (itemId args) (get_prop item ''id''))
              (itemId args) \<and>
            str_includes (duplicate_confirmation_message (itemId args) (get_prop item ''id''))
              (js_string (get_prop item ''id'')) \<and>
            (\<forall>cl' item'. items_duplicate cl' (itemId args) = Inr item' \<and> truthy item' \<and>
                 get_prop item' ''id'' = get_prop item ''id'' \<longrightarrow>
               snd (duplicateRecordHandler (env\<lparr>getDefaultClient := \<lambda>token env_name. Inr cl'\<rparr>) args) =
               snd (duplicateRecordHandler env args))) \<and>
         (returnOnlyConfirmation args \<noteq> Some True \<longrightarrow>
            snd (duplicateRecordHandler env args) =
              Inr (createResponse env (JSON_stringify env item)))"
proof -
  have inc1: "str_includes (duplicate_confirmation_message (itemId args) (get_prop item ''id''))
      (itemId args)"
    unfolding duplicate_confirmation_message_def
    by (intro str_includes_appendI2 str_includes_appendI1 str_includes_refl)
  have inc2: "str_includes (duplicate_confirmation_message (itemId args) (get_prop item ''id''))
      (js_string (get_prop item ''id''))"
    unfolding duplicate_confirmation_message_def
    by (intro str_includes_appendI2 str_includes_appendI1 str_includes_refl)
  have full: "returnOnlyConfirmation args \<noteq> Some True \<Longrightarrow>
      snd (duplicateRecordHandler env args) = Inr (createResponse env (JSON_stringify env item))"
    using assms by (cases "returnOnlyConfirmation args") (auto simp: duplicateRecordHandler_def)
  have short: "returnOnlyConfirmation args = Some True \<Longrightarrow>
      snd (duplicateRecordHandler env' args) =
        Inr (createResponse env' (JSON_stringify env'
          (Obj [(''success'', Bool True),
                (''message'', Str (duplicate_confirmation_message (itemId args)
                                     (get_prop item' ''id'')))])))"
    if "getDefaultClient env' (apiToken args) (environment args) = Inr cl'"
      and "items_duplicate cl' (itemId args) = Inr item'" and "truthy item'"
    for env' :: "'a deps_scheme" and cl' :: client and item'
    using that by (simp add: duplicateRecordHandler_def)
  show ?thesis
  proof (intro conjI impI allI)
    assume "returnOnlyConfirmation args = Some True"
    then show "snd (duplicateRecordHandler env args) =
              Inr (createResponse env (JSON_stringify env
                (Obj [(''success'', Bool True),
                      (''message'', Str (duplicate_confirmation_message (itemId args)
                                           (get_prop item ''id'')))])))"
      using short [OF assms] by simp
  next
    show "str_includes (duplicate_confirmation_message (itemId args) (get_prop item ''id''))
              (itemId args)" by (rule inc1)
  next
    show "str_includes (duplicate_confirmation_message (itemId args) (get_prop item ''id''))
              (js_string (get_prop item ''id''))" by (rule inc2)
  next
    fix cl' :: client and item'
    assume flag: "returnOnlyConfirmation args = Some True"
      and h: "items_duplicate cl' (itemId args) = Inr item' \<and> truthy item' \<and>
                 get_prop item' ''id'' = get_prop item ''id''"
    let ?env' = "env\<lparr>getDefaultClient := \<lambda>token env_name. Inr cl'\<rparr>"
    have "getDefaultClient ?env' (apiToken args) (environment args) = Inr cl'" by simp
    from short [OF this, of item'] h flag
    have "snd (duplicateRecordHandler ?env' args) =
        Inr (createResponse ?env' (JSON_stringify ?env'
          (Obj [(''success'', Bool True),
                (''message'', Str (duplicate_confirmation_message (itemId args)
                                     (get_prop item ''id'')))])))"
      by simp
    also have "\<dots> = snd (duplicateRecordHandler env args)"
      using short [OF assms] flag by (simp add: JSON_stringify_def)
    finally show "snd (duplicateRecordHandler ?env' args) = snd (duplicateRecordHandler env args)" .
  next
    assume "returnOnlyConfirmation args \<noteq> Some True"
    then show "snd (duplicateRecordHandler env args) =
              Inr (createResponse env (JSON_stringify env item))" by (rule full)
  qed
qed

theorem duplicate_confirmation_or_payload_witness:
  "snd (duplicateRecordHandler (demo_deps (Inr demo_record)) (demo_duplicate_args (Some True))) =
     Inr (demo_response (Str (demo_stringify
       (Obj [(''success'', Bool True),
             (''message'', Str (''Successfully duplicated record with ID 'r1'. New record ID: 'r2'' @ sq))])))) \<and>
   str_includes (''Successfully duplicated record with ID 'r1'. New record ID: 'r2'' @ sq) ''r1'' \<and>
   str_includes (''Successfully duplicated record with ID 'r1'. New record ID: 'r2'' @ sq) ''r2'' \<and>
   snd (duplicateRecordHandler (demo_deps (Inr demo_record)) (demo_duplicate_args None)) =
     Inr (demo_response (Str (demo_stringify demo_record)))"
proof -
  let ?env = "demo_deps (Inr demo_record)"
  have cl: "getDefaultClient ?env (apiToken (demo_duplicate_args flag))
      (environment (demo_duplicate_args flag)) = Inr (demo_client (Inr demo_record))" for flag
    by (simp add: demo_deps_def)
  have dup: "items_duplicate (demo_client (Inr demo_record)) (itemId (demo_duplicate_args flag)) =
      Inr demo_record" for flag
    by (simp add: demo_client_def)
  have tr: "truthy demo_record"
    by (simp add: demo_record_def)
  have id: "get_prop demo_record ''id'' = Str ''r2''"
    by (simp add: demo_record_def)
  have msg: "duplicate_confirmation_message ''r1'' (Str ''r2'') =
      ''Successfully duplicated record with ID 'r1'. New record ID: 'r2'' @ sq"
    by (simp add: duplicate_confirmation_message_def sq_def)
  have env: "createResponse ?env = demo_response" "stringify ?env = demo_stringify"
    by (simp_all add: demo_deps_def)
  have args: "itemId (demo_duplicate_args flag) = ''r1''"
    "returnOnlyConfirmation (demo_duplicate_args flag) = flag" for flag
    by (simp_all add: demo_duplicate_args_def)
  have nd: "demo_record \<noteq> Undefined"
    by (simp add: demo_record_def)
  show ?thesis
    using duplicate_confirmation_or_payload [OF cl dup tr, of "Some True"]
      duplicate_confirmation_or_payload [OF cl dup tr, of None]
    by (simp add: args id msg env JSON_stringify_def nd del: demo_stringify.simps)
qed

text \<open>
  C7. A \<open>rich_text\<close> field whose validators are absent or have no
  \<open>rich_text_blocks\<close> entry: the handler throws before any call on the client, and
  the message names \<open>'rich_text_blocks'\<close> and holds the JSON example of the shape to
  add.
\<close>

theorem rich_text_requires_blocks:
  assumes "field_type args = ''rich_text''"
    and "validators args = None \<or>
         (\<exists>vs. validators args = Some vs \<and> map_of vs ''rich_text_blocks'' = None)"
  shows "createFieldHandler env args = ([], Inl (Error missing_rich_text_blocks_message)) \<and>
         str_includes missing_rich_text_blocks_message (sq @ ''rich_text_blocks'' @ sq) \<and>
         str_includes missing_rich_text_blocks_message rich_text_blocks_example"
proof -
  from assms(2) have "validators args = None \<or> \<not> truthy (validator args ''rich_text_blocks'')"
    by (auto simp: validator_def)
  with assms(1) have "check_field_rules args = Inl (Error missing_rich_text_blocks_message)"
    by (simp add: check_field_rules_def)
  then have "createFieldHandler env args = ([], Inl (Error missing_rich_text_blocks_message))"
    by (simp add: createFieldHandler_def)
  moreover have "str_includes missing_rich_text_blocks_message (sq @ ''rich_text_blocks'' @ sq)"
    by (simp add: missing_rich_text_blocks_message_def sq_def)
  moreover have "str_includes missing_rich_text_blocks_message rich_text_blocks_example"
    by (simp add: missing_rich_text_blocks_message_def rich_text_blocks_example_def)
  ultimately show ?thesis by simp
qed

theorem rich_text_requires_blocks_witness:
  "createFieldHandler (demo_deps (Inr demo_field))
     (demo_field_args ''rich_text'' (Some [(''size'', Obj [(''min'', Num 1)])]) None) =
     ([], Inl (Error missing_rich_text_blocks_message)) \<and>
   str_includes missing_rich_text_blocks_message (sq @ ''rich_text_blocks'' @ sq) \<and>
   str_includes missing_rich_text_blocks_message rich_text_blocks_example"
  using rich_text_requires_blocks [of
      "demo_field_args ''rich_text'' (Some [(''size'', Obj [(''min'', Num 1)])]) None"
      "demo_deps (Inr demo_field)"]
  by (simp add: demo_field_args_def)

text \<open>
  C9. A \<open>link\<close> field whose \<open>item_item_type\<close> validator is there (truthy, as
  the source tests it), and a \<open>links\<close> field whose \<open>items_item_type\<close> validator
  is there, but whose \<open>item_types\<close> is not an array with at least one element
  (missing, not an array, or empty): the handler throws before any call on the client,
  and the message requires an \<open>item_types\<close> array with at least one item type ID.
  A validator that is listed with a falsy value (null, false, 0, the empty string) is
  reported by the check before as missing, also before any call on the client, with
  the shape to add: an \<open>item_types\<close> array with one item type ID.
\<close>

theorem link_validators_need_item_types:
  "(field_type args = ''link'' \<and> truthy (validator args ''item_item_type'') \<and>
      (\<forall>x xs. get_prop (validator args ''item_item_type'') ''item_types'' \<noteq> Arr (x # xs)) \<longrightarrow>
    createFieldHandler env args = ([], Inl (Error item_item_type_array_message))) \<and>
   (field_type args = ''links'' \<and> truthy (validator args ''items_item_type'') \<and>
      (\<forall>x xs. get_prop (validator args ''items_item_type'') ''item_types'' \<noteq> Arr (x # xs)) \<longrightarrow>
    createFieldHandler env args = ([], Inl (Error items_item_type_array_message))) \<and>
   (field_type args = ''link'' \<and> \<not> truthy (validator args ''item_item_type'') \<longrightarrow>
    createFieldHandler env args = ([], Inl (Error missing_item_item_type_message))) \<and>
   (field_type args = ''links'' \<and> \<not> truthy (validator args ''items_item_type'') \<longrightarrow>
    createFieldHandler env args = ([], Inl (Error missing_items_item_type_message))) \<and>
   str_includes item_item_type_array_message item_types_requirement \<and>
   str_includes items_item_type_array_message item_types_requirement \<and>
   str_includes missing_item_item_type_message item_types_example \<and>
   str_includes missing_items_item_type_message item_types_example"
proof (intro conjI impI)
  assume h: "field_type args = ''link'' \<and> truthy (validator args ''item_item_type'') \<and>
      (\<forall>x xs. get_prop (validator args ''item_item_type'') ''item_types'' \<noteq> Arr (x # xs))"
  then have present: "validators args \<noteq> None"
    by (cases "validators args") (simp_all add: validator_def)
  from h have none: "no_item_types (validator args ''item_item_type'')"
    by (simp add: no_item_types_iff)
  from h present none
  have "check_field_rules args = Inl (Error item_item_type_array_message)"
    by (auto simp: check_field_rules_def check_enum_values_other Let_def)
  then show "createFieldHandler env args = ([], Inl (Error item_item_type_array_message))"
    by (simp add: createFieldHandler_def)
next
  assume h: "field_type args = ''links'' \<and> truthy (validator args ''items_item_type'') \<and>
      (\<forall>x xs. get_prop (validator args ''items_item_type'') ''item_types'' \<noteq> Arr (x # xs))"
  then have present: "validators args \<noteq> None"
    by (cases "validators args") (simp_all add: validator_def)
  from h have none: "no_item_types (validator args ''items_item_type'')"
    by (simp add: no_item_types_iff)
  from h present none
  have "check_field_rules args = Inl (Error items_item_type_array_message)"
    by (auto simp: check_field_rules_def check_enum_values_other Let_def)
  then show "createFieldHandler env args = ([], Inl (Error items_item_type_array_message))"
    by (simp add: createFieldHandler_def)
next
  assume h: "field_type args = ''link'' \<and> \<not> truthy (validator args ''item_item_type'')"
  then have "check_field_rules args = Inl (Error missing_item_item_type_message)"
    by (auto simp: check_field_rules_def check_enum_values_other Let_def)
  then show "createFieldHandler env args = ([], Inl (Error missing_item_item_type_message))"
    by (simp add: createFieldHandler_def)
next
  assume h: "field_type args = ''links'' \<and> \<not> truthy (validator args ''items_item_type'')"
  then have "check_field_rules args = Inl (Error missing_items_item_type_message)"
    by (auto simp: check_field_rules_def check_enum_values_other Let_def)
  then show "createFieldHandler env args = ([], Inl (Error missing_items_item_type_message))"
    by (simp add: createFieldHandler_def)
next
  show "str_includes item_item_type_array_message item_types_requirement"
    by (simp add: item_item_type_array_message_def item_types_requirement_def)
next
  show "str_includes items_item_type_array_message item_types_requirement"
    by (simp add: items_item_type_array_message_def item_types_requirement_def)
next
  show "str_includes missing_item_item_type_message item_types_example"
    by (simp add: missing_item_item_type_message_def item_types_example_def)
next
  show "str_includes missing_items_item_type_message item_types_example"
    by (simp add: missing_items_item_type_message_def item_types_example_def)
qed

theorem link_validators_need_item_types_witness:
  "createFieldHandler (demo_deps (Inr demo_field))
     (demo_field_args ''link'' (Some [(''item_item_type'', Obj [(''item_types'', Arr [])])]) None) =
     ([], Inl (Error item_item_type_array_message)) \<and>
   createFieldHandler (demo_deps (Inr demo_field))
     (demo_field_args ''links'' (Some [(''items_item_type'', Obj [(''on_publish'', Str ''fail'')])]) None) =
     ([], Inl (Error items_item_type_array_message)) \<and>
   createFieldHandler (demo_deps (Inr demo_field))
     (demo_field_args ''link'' (Some [(''item_item_type'', Obj [(''item_types'', Str ''m2'')])]) None) =
     ([], Inl (Error item_item_type_array_message)) \<and>
   createFieldHandler (demo_deps (Inr demo_field))
     (demo_field_args ''link'' (Some [(''item_item_type'', Null)]) None) =
     ([], Inl (Error missing_item_item_type_message))"
  using link_validators_need_item_types [of
      "demo_field_args ''link'' (Some [(''item_item_type'', Obj [(''item_types'', Arr [])])]) None"
      "demo_deps (Inr demo_field)"]
    link_validators_need_item_types [of
      "demo_field_args ''links'' (Some [(''items_item_type'', Obj [(''on_publish'', Str ''fail'')])]) None"
      "demo_deps (Inr demo_field)"]
    link_validators_need_item_types [of
      "demo_field_args ''link'' (Some [(''item_item_type'', Obj [(''item_types'', Str ''m2'')])]) None"
      "demo_deps (Inr demo_field)"]
    link_validators_need_item_types [of
      "demo_field_args ''link'' (Some [(''item_item_type'', Null)]) None"
      "demo_deps (Inr demo_field)"]
  by (simp add: demo_field_args_def validator_def)

text \<open>
  C5. A \<open>color\<close> field passes every check, so once the client is built the handler
  makes one call on it. The appearance of the field data it hands over has the editor
  \<open>color_picker\<close>; its parameter \<open>enable_alpha\<close> is false when the caller's
  \<open>appearance.parameters\<close> has no \<open>enable_alpha\<close>, and is the caller's value when
  it has one (the parameters being an object, their keys are distinct); its \<open>addons\<close>
  is an array: the caller's, or the empty one.
\<close>

theorem color_field_appearance:
  assumes "field_type args = ''color''"
    and "getDefaultClient env (apiToken args) (environment args) = Inr cl"
  shows "\<exists>data. fst (createFieldHandler env args) = [FieldsCreate (itemTypeId args) data] \<and>
           get_prop (get_prop data ''appearance'') ''editor'' = Str ''color_picker'' \<and>
           (map_of (parameters_or_empty (appearance args)) ''enable_alpha'' = None \<longrightarrow>
              get_prop (get_prop (get_prop data ''appearance'') ''parameters'') ''enable_alpha'' =
                Bool False) \<and>
           (\<forall>v. distinct (map fst (parameters_or_empty (appearance args))) \<and>
                map_of (parameters_or_empty (appearance args)) ''enable_alpha'' = Some v \<longrightarrow>
              get_prop (get_prop (get_prop data ''appearance'') ''parameters'') ''enable_alpha'' = v) \<and>
           get_prop (get_prop data ''appearance'') ''addons'' =
             Arr (addons_or_empty (appearance args))"
proof -
  let ?ps = "parameters_or_empty (appearance args)"
  let ?a = "\<lparr>editor = ''color_picker'',
             parameters = Some (spread [(''enable_alpha'', Bool False)] ?ps),
             addons = Some (addons_or_empty (appearance args))\<rparr>"
  let ?data = "fieldData args (Some ?a)"
  have rules: "check_field_rules args = Inr (appearance args)"
    using assms(1) by (rule check_field_rules_color)
  have slug: "check_slug args = None"
    using assms(1) by (simp add: check_slug_other)
  have call: "fst (createFieldHandler env args) = [FieldsCreate (itemTypeId args) ?data]"
    using dispatched_call [OF rules slug assms(2)] assms(1)
    by (simp add: process_appearance_color)
  have ap: "get_prop ?data ''appearance'' = appearance_obj ?a"
    by (rule fieldData_appearance)
  have ed: "get_prop (get_prop ?data ''appearance'') ''editor'' = Str ''color_picker''"
    by (simp add: ap appearance_obj_def)
  have ps: "get_prop (get_prop ?data ''appearance'') ''parameters'' =
      Obj (spread [(''enable_alpha'', Bool False)] ?ps)"
    by (simp add: ap appearance_obj_def)
  have ad: "get_prop (get_prop ?data ''appearance'') ''addons'' =
      Arr (addons_or_empty (appearance args))"
    by (simp add: ap appearance_obj_def)
  have dflt: "get_prop (get_prop (get_prop ?data ''appearance'') ''parameters'') ''enable_alpha'' =
      Bool False" if "map_of ?ps ''enable_alpha'' = None"
    using map_of_rev_None [OF that] by (simp add: ps map_of_spread)
  have over: "get_prop (get_prop (get_prop ?data ''appearance'') ''parameters'') ''enable_alpha'' = v"
    if "distinct (map fst ?ps) \<and> map_of ?ps ''enable_alpha'' = Some v" for v
    using that by (simp add: ps map_of_spread map_of_rev_distinct)
  show ?thesis
  proof (intro exI conjI impI allI)
    show "fst (createFieldHandler env args) = [FieldsCreate (itemTypeId args) ?data]"
      by (rule call)
    show "get_prop (get_prop ?data ''appearance'') ''editor'' = Str ''color_picker''"
      by (rule ed)
    show "get_prop (get_prop (get_prop ?data ''appearance'') ''parameters'') ''enable_alpha'' =
        Bool False" if "map_of ?ps ''enable_alpha'' = None"
      using that by (rule dflt)
    show "get_prop (get_prop (get_prop ?data ''appearance'') ''parameters'') ''enable_alpha'' = v"
      if "distinct (map fst ?ps) \<and> map_of ?ps ''enable_alpha'' = Some v" for v
      using that by (rule over)
    show "get_prop (get_prop ?data ''appearance'') ''addons'' =
        Arr (addons_or_empty (appearance args))"
      by (rule ad)
  qed
qed

theorem color_field_appearance_witness:
  "(\<exists>data. fst (createFieldHandler (demo_deps (Inr demo_field)) (demo_color_args None)) =
        [FieldsCreate ''m1'' data] \<and>
      get_prop (get_prop data ''appearance'') ''editor'' = Str ''color_picker'' \<and>
      get_prop (get_prop (get_prop data ''appearance'') ''parameters'') ''enable_alpha'' = Bool False \<and>
      get_prop (get_prop data ''appearance'') ''addons'' = Arr []) \<and>
   (\<exists>data. fst (createFieldHandler (demo_deps (Inr demo_field))
                 (demo_color_args (Some [(''enable_alpha'', Bool True)]))) =
        [FieldsCreate ''m1'' data] \<and>
      get_prop (get_prop data ''appearance'') ''editor'' = Str ''color_picker'' \<and>
      get_prop (get_prop (get_prop data ''appearance'') ''parameters'') ''enable_alpha'' = Bool True \<and>
      get_prop (get_prop data ''appearance'') ''addons'' = Arr [])"
proof -
  have ft: "field_type (demo_color_args ps) = ''color''" for ps
    by (simp add: demo_color_args_def demo_field_args_def)
  have cl: "getDefaultClient (demo_deps (Inr demo_field)) (apiToken (demo_color_args ps))
      (environment (demo_color_args ps)) = Inr (demo_client (Inr demo_field))" for ps
    by (simp add: demo_deps_def)
  have ap: "appearance (demo_color_args ps) =
      Some \<lparr>editor = ''color_wheel'', parameters = ps, addons = None\<rparr>" for ps
    by (simp add: demo_color_args_def demo_field_args_def)
  have tid: "itemTypeId (demo_color_args ps) = ''m1''" for ps
    by (simp add: demo_color_args_def demo_field_args_def)
  show ?thesis
    using color_field_appearance [OF ft cl, of None]
      color_field_appearance [OF ft cl, of "Some [(''enable_alpha'', Bool True)]"]
    by (simp add: ap tid parameters_or_empty_def addons_or_empty_def)
qed

text \<open>
  C6. A \<open>lat_lon\<close> field whose appearance has the editor \<open>lat_lon_editor\<close>: the
  appearance of the field data handed to the client has the editor \<open>map\<close>, not the
  caller's.
\<close>

theorem lat_lon_editor_corrected:
  assumes "field_type args = ''lat_lon''"
    and "appearance args = Some a"
    and "editor a = ''lat_lon_editor''"
    and "getDefaultClient env (apiToken args) (environment args) = Inr cl"
  shows "\<exists>data. fst (createFieldHandler env args) = [FieldsCreate (itemTypeId args) data] \<and>
           get_prop (get_prop data ''appearance'') ''editor'' = Str ''map'' \<and>
           get_prop (get_prop data ''appearance'') ''editor'' \<noteq> Str (editor a)"
proof -
  let ?a = "a\<lparr>editor := ''map'', addons := Some (addons_or_empty (Some a))\<rparr>"
  let ?data = "fieldData args (Some ?a)"
  have rules: "check_field_rules args = Inr (appearance args)"
    using assms(1) by (rule check_field_rules_lat_lon)
  have slug: "check_slug args = None"
    using assms(1) by (simp add: check_slug_other)
  have call: "fst (createFieldHandler env args) = [FieldsCreate (itemTypeId args) ?data]"
    using dispatched_call [OF rules slug assms(4)] assms(1,2)
    by (simp add: process_appearance_lat_lon [OF assms(3)])
  have "get_prop ?data ''appearance'' = appearance_obj ?a"
    by (rule fieldData_appearance)
  then have ed: "get_prop (get_prop ?data ''appearance'') ''editor'' = Str ''map''"
    by (simp add: appearance_obj_def)
  show ?thesis
  proof (intro exI conjI)
    show "fst (createFieldHandler env args) = [FieldsCreate (itemTypeId args) ?data]"
      by (rule call)
    show "get_prop (get_prop ?data ''appearance'') ''editor'' = Str ''map''"
      by (rule ed)
    show "get_prop (get_prop ?data ''appearance'') ''editor'' \<noteq> Str (editor a)"
      by (simp add: ed assms(3))
  qed
qed

theorem lat_lon_editor_corrected_witness:
  "\<exists>data. fst (createFieldHandler (demo_deps (Inr demo_field)) demo_lat_lon_args) =
      [FieldsCreate ''m1'' data] \<and>
    get_prop (get_prop data ''appearance'') ''editor'' = Str ''map''"
proof -
  have ft: "field_type demo_lat_lon_args = ''lat_lon''"
    by (simp add: demo_lat_lon_args_def demo_field_args_def)
  have ap: "appearance demo_lat_lon_args =
      Some \<lparr>editor = ''lat_lon_editor'', parameters = None, addons = None\<rparr>"
    by (simp add: demo_lat_lon_args_def demo_field_args_def)
  have ed: "editor \<lparr>editor = ''lat_lon_editor'', parameters = None, addons = None\<rparr> =
      ''lat_lon_editor''"
    by simp
  have cl: "getDefaultClient (demo_deps (Inr demo_field)) (apiToken demo_lat_lon_args)
      (environment demo_lat_lon_args) = Inr (demo_client (Inr demo_field))"
    by (simp add: demo_deps_def)
  have tid: "itemTypeId demo_lat_lon_args = ''m1''"
    by (simp add: demo_lat_lon_args_def demo_field_args_def)
  show ?thesis
    using lat_lon_editor_corrected [OF ft ap ed cl] by (auto simp: tid)
qed

text \<open>
  C4, as the code has it. The catch block tests the signatures in a fixed order:
  \<open>addons\<close>, \<open>rich_text_blocks\<close>, \<open>start_collapsed\<close>, and only then
  \<open>item_item_type\<close>. When the client's call throws and the extracted error text
  contains \<open>item_item_type\<close> and none of the three signatures tested before it, the
  handler throws the message that the item type IDs provided in
  \<open>'item_item_type'\<close> are invalid or inaccessible, wherever the substring stands in
  the text.
\<close>

theorem item_item_type_error_rewritten:
  assumes "getDefaultClient env (apiToken args) (environment args) = Inr cl"
    and "fst (createFieldHandler env args) = [FieldsCreate tid data]"
    and "fields_create cl tid data = Inl e"
    and "str_includes (extractDetailedErrorInfo env e) ''item_item_type''"
    and "\<not> str_includes (extractDetailedErrorInfo env e) ''addons''"
    and "\<not> str_includes (extractDetailedErrorInfo env e) ''rich_text_blocks''"
    and "\<not> str_includes (extractDetailedErrorInfo env e) ''start_collapsed''"
  shows "snd (createFieldHandler env args) = Inl (Error invalid_item_item_type_message)"
proof (cases "check_field_rules args")
  case (Inl x)
  with assms(2) show ?thesis by (simp add: createFieldHandler_def)
next
  case (Inr ap)
  show ?thesis
  proof (cases "check_slug args")
    case (Some x)
    with Inr assms(2) show ?thesis by (simp add: createFieldHandler_def Let_def)
  next
    case None
    from dispatched_call [OF Inr None assms(1)] assms(2)
    have "tid = itemTypeId args"
      and "data = fieldData args (process_appearance (field_type args) ap)"
      by simp_all
    with assms(3) have "fields_create cl (itemTypeId args)
        (fieldData args (process_appearance (field_type args) ap)) = Inl e"
      by simp
    from upstream_error_rewritten [OF Inr None assms(1) this]
    show ?thesis
      using assms(4-7) by (simp add: rewrite_error_message_def)
  qed
qed

theorem item_item_type_error_rewritten_witness:
  "str_includes (extractDetailedErrorInfo (demo_deps (Inl upstream_item_types_error))
       upstream_item_types_error) ''item_item_type'' \<and>
   snd (createFieldHandler (demo_deps (Inl upstream_item_types_error)) demo_link_args) =
     Inl (Error invalid_item_item_type_message)"
proof -
  let ?env = "demo_deps (Inl upstream_item_types_error)"
  have msg: "extractDetailedErrorInfo ?env upstream_item_types_error =
      ''422 INVALID_FIELD: validators.item_item_type.item_types has unknown item types''"
    by (simp add: demo_deps_def demo_extract_def upstream_item_types_error_def)
  have inc: "str_includes (extractDetailedErrorInfo ?env upstream_item_types_error) ''item_item_type''"
    unfolding msg by simp
  have n1: "\<not> str_includes (extractDetailedErrorInfo ?env upstream_item_types_error) ''addons''"
    unfolding msg by simp
  have n2: "\<not> str_includes (extractDetailedErrorInfo ?env upstream_item_types_error) ''rich_text_blocks''"
    unfolding msg by simp
  have n3: "\<not> str_includes (extractDetailedErrorInfo ?env upstream_item_types_error) ''start_collapsed''"
    unfolding msg by simp
  have cl: "getDefaultClient ?env (apiToken demo_link_args) (environment demo_link_args) =
      Inr (demo_client (Inl upstream_item_types_error))"
    by (simp add: demo_deps_def)
  have reply: "fields_create (demo_client (Inl upstream_item_types_error)) ''m1''
      (fieldData demo_link_args (process_appearance ''link'' None)) =
      Inl upstream_item_types_error"
    by (simp add: demo_client_def)
  from item_item_type_error_rewritten [OF cl demo_link_args_call reply inc n1 n2 n3] inc
  show ?thesis by simp
qed

text \<open>
  C4, as the claim states it, fails: an upstream error text that contains
  \<open>item_item_type\<close> and also \<open>addons\<close> is rewritten to the message about the
  \<open>addons\<close> field, which is another message.
\<close>

theorem item_item_type_rewrite_counterexample:
  "str_includes (extractDetailedErrorInfo (demo_deps (Inl upstream_two_problems_error))
       upstream_two_problems_error) ''item_item_type'' \<and>
   createFieldHandler (demo_deps (Inl upstream_two_problems_error)) demo_link_args =
     ([FieldsCreate ''m1'' (fieldData demo_link_args None)],
      Inl (Error addons_required_message)) \<and>
   addons_required_message \<noteq> invalid_item_item_type_message"
proof -
  let ?env = "demo_deps (Inl upstream_two_problems_error)"
  have msg: "extractDetailedErrorInfo ?env upstream_two_problems_error =
      ''422 INVALID_FIELD: validators.item_item_type.item_types has unknown item types; appearance.addons is missing''"
    by (simp add: demo_deps_def demo_extract_def upstream_two_problems_error_def)
  have inc: "str_includes (extractDetailedErrorInfo ?env upstream_two_problems_error) ''item_item_type''"
    unfolding msg by simp
  have addons: "str_includes (extractDetailedErrorInfo ?env upstream_two_problems_error) ''addons''"
    unfolding msg by simp
  have pa: "process_appearance ''link'' None = None"
    by (simp add: process_appearance_def)
  have ft: "field_type demo_link_args = ''link''"
    by (simp add: demo_link_args_def demo_field_args_def)
  have call: "fst (createFieldHandler ?env demo_link_args) =
      [FieldsCreate ''m1'' (fieldData demo_link_args None)]"
    using demo_link_args_call [of "Inl upstream_two_problems_error"] by (simp add: pa)
  have "check_slug demo_link_args = None"
    by (simp add: check_slug_def ft)
  moreover have "getDefaultClient ?env (apiToken demo_link_args) (environment demo_link_args) =
      Inr (demo_client (Inl upstream_two_problems_error))"
    by (simp add: demo_deps_def)
  moreover have "fields_create (demo_client (Inl upstream_two_problems_error))
      (itemTypeId demo_link_args)
      (fieldData demo_link_args (process_appearance (field_type demo_link_args) None)) =
      Inl upstream_two_problems_error"
    by (simp add: demo_client_def)
  ultimately have "snd (createFieldHandler ?env demo_link_args) =
      Inl (Error (rewrite_error_message demo_link_args
        (extractDetailedErrorInfo ?env upstream_two_problems_error)))"
    using upstream_error_rewritten [OF demo_link_args_rules] by blast
  also have "\<dots> = Inl (Error addons_required_message)"
    using addons by (simp add: rewrite_error_message_def)
  finally have res: "snd (createFieldHandler ?env demo_link_args) =
      Inl (Error addons_required_message)" .
  have ne: "addons_required_message \<noteq> invalid_item_item_type_message"
    by (simp add: addons_required_message_def invalid_item_item_type_message_def)
  from call res have "createFieldHandler ?env demo_link_args =
     ([FieldsCreate ''m1'' (fieldData demo_link_args None)],
      Inl (Error addons_required_message))"
    by (simp add: prod_eq_iff)
  with inc ne show ?thesis by simp
qed

end
